theory Spec2Isabelle
  imports Main "HOL-Library.Word"
begin

section \<open>Shared types\<close>

text \<open>
  Roots are byte arrays (\<open>Uint8Array\<close>); the regenerator keys its lookups by their hex
  strings (\<open>RootHex\<close>). Slots and epochs are JavaScript numbers holding integers; they are
  modelled as \<open>int\<close> so that \<open>epoch - 1\<close> can go below zero before \<open>Math.max\<close> clamps it.
\<close>

type_synonym byte = "8 word"
type_synonym Root = "byte list"
type_synonym RootHex = string
type_synonym Slot = int
type_synonym Epoch = int

text \<open>
  \<open>toHexString\<close> of the SSZ library: \<open>0x\<close> followed by two lower-case hex digits per byte.
\<close>

definition hexDigit :: "nat \<Rightarrow> char" where
  "hexDigit n = ''0123456789abcdef'' ! (n mod 16)"

definition toHexString :: "byte list \<Rightarrow> string" where
  "toHexString bs = ''0x'' @ concat (map (\<lambda>b. [hexDigit (unat b div 16), hexDigit (unat b mod 16)]) bs)"

text \<open>
  Modelled from the spec: the slot/epoch helpers \<open>computeStartSlotAtEpoch\<close> and
  \<open>computeEpochAtSlot\<close> and the constant \<open>SLOTS_PER_EPOCH\<close> are imported from other
  packages (\<open>lodestar-beacon-state-transition\<close>, \<open>lodestar-params\<close>). The spec calls
  them \<open>first_slot_of_epoch\<close> and \<open>epoch\<close> and fixes \<open>SLOTS_PER_EPOCH = 32\<close> in its
  scenarios. No general theorem below depends on the value 32.
\<close>

definition SLOTS_PER_EPOCH :: int where
  "SLOTS_PER_EPOCH = 32"

definition computeStartSlotAtEpoch :: "Epoch \<Rightarrow> Slot" where
  "computeStartSlotAtEpoch epoch = epoch * SLOTS_PER_EPOCH"

definition computeEpochAtSlot :: "Slot \<Rightarrow> Epoch" where
  "computeEpochAtSlot slot = slot div SLOTS_PER_EPOCH"

section \<open>Data model of the regenerator\<close>

text \<open>
  The block summary \<open>IProtoBlock\<close> of the fork choice, with the fields the regenerator
  reads. Several records below share field names, as the TypeScript types do; a shared
  name is written qualified (\<open>IProtoBlock.slot\<close>, \<open>HeadSummary.slot\<close>).
\<close>

record IProtoBlock =
  slot :: Slot
  blockRoot :: RootHex
  parentRoot :: RootHex
  stateRoot :: RootHex
  targetRoot :: RootHex

record CheckpointHex =
  epoch :: Epoch
  rootHex :: RootHex

record Checkpoint =
  epoch :: Epoch
  root :: Root

record BeaconBlock =
  slot :: Slot
  parentRoot :: Root

text \<open>
  The consensus state is opaque to the regenerator. The record keeps what the code reads;
  \<open>hashTreeRoot\<close> is the value of the method call \<open>state.hashTreeRoot()\<close>. A shuffling
  is a list of validator indices.
\<close>

type_synonym ProposerShuffling = "nat list"
type_synonym AttesterShuffling = "nat list"

record CachedBeaconState =
  slot :: Slot
  hashTreeRoot :: Root
  proposers :: ProposerShuffling
  currentShuffling :: AttesterShuffling
  nextShuffling :: AttesterShuffling
  previousShuffling :: AttesterShuffling

record HeadSummary =
  stateRoot :: RootHex
  blockRoot :: RootHex
  slot :: Slot
  epoch :: Epoch
  targetRoot :: RootHex
  dependantRootNext :: RootHex
  dependantRootCurr :: RootHex
  dependantRootPrev :: RootHex

datatype RegenCaller = regenHeadState | otherCaller string

datatype RegenRequest =
    GetPreState BeaconBlock RegenCaller
  | GetCheckpointState Checkpoint RegenCaller
  | GetBlockSlotState RootHex Slot RegenCaller
  | GetState RootHex RegenCaller

section \<open>Errors and promises\<close>

text \<open>
  Every \<open>throw\<close> of \<open>queued.ts\<close> is a constructor, carrying what its message
  interpolates. \<open>QueueFull\<close> and \<open>Cancelled\<close> are the job queue's errors, \<open>StoreError\<close>
  and \<open>RegenError\<close> stand for whatever the persistent reader and the regeneration
  engine reject with. \<open>TypeError\<close> is what the runtime throws when a method is called on
  \<open>undefined\<close>.
\<close>

datatype error =
    BeforeFinalized Epoch
  | Unresolvable RootHex Slot
  | BlockNotInForkChoice Root
  | TargetBlockNotFound Root Epoch
  | QueueFull
  | Cancelled
  | StoreError
  | RegenError
  | TypeError

text \<open>
  An \<open>async\<close> method returns a promise. What the caller can observe when the call
  returns is whether that promise is already settled: \<open>Resolved\<close> and \<open>Rejected\<close>
  are the outcomes reached without suspending, \<open>Pending\<close> is a promise that waits
  for the job queue.
\<close>

datatype 'a Promise = Resolved 'a | Rejected error | Pending

text \<open>
  The reactions that the code attaches to a promise of the job queue. The facade's
  callers await it (\<open>ReturnToCaller\<close>); \<open>setHead\<close> chains
  \<open>.then((state) => {this.headState = state})\<close> on it (\<open>InstallHeadState\<close>).
\<close>

datatype Continuation = ReturnToCaller | InstallHeadState

section \<open>Collaborators\<close>

text \<open>
  The fork choice is a read-only collaborator: a table of block summaries by hex root
  and the finalized checkpoint. \<open>getBlock\<close> takes the root as bytes.
\<close>

record IForkChoice =
  blocks :: "RootHex \<rightharpoonup> IProtoBlock"
  finalizedCheckpoint :: CheckpointHex

definition getBlockHex :: "IForkChoice \<Rightarrow> RootHex \<Rightarrow> IProtoBlock option" where
  "getBlockHex fc blockRootHex = blocks fc blockRootHex"

definition getBlock :: "IForkChoice \<Rightarrow> Root \<Rightarrow> IProtoBlock option" where
  "getBlock fc blockRootBytes = getBlockHex fc (toHexString blockRootBytes)"

definition getFinalizedCheckpoint :: "IForkChoice \<Rightarrow> CheckpointHex" where
  "getFinalizedCheckpoint fc = finalizedCheckpoint fc"

text \<open>
  The caches are interfaces implemented elsewhere. The state cache is its \<open>get\<close>: a
  partial map from state roots. The checkpoint cache is its two queries; \<open>getLatest\<close> is
  called with an epoch or with \<open>Infinity\<close>. The persistent store is its
  \<open>readCheckpointState\<close>, which can reject.
\<close>

type_synonym StateContextCache = "RootHex \<rightharpoonup> CachedBeaconState"

datatype MaxEpoch = AtMost Epoch | Infinity

record CheckpointStateCache =
  get :: "CheckpointHex \<Rightarrow> CachedBeaconState option"
  getLatest :: "RootHex \<Rightarrow> MaxEpoch \<Rightarrow> CachedBeaconState option"

definition toCheckpointHex :: "Checkpoint \<Rightarrow> CheckpointHex" where
  "toCheckpointHex cp = \<lparr>CheckpointHex.epoch = Checkpoint.epoch cp, rootHex = toHexString (root cp)\<rparr>"

type_synonym Store = "Epoch \<Rightarrow> RootHex \<Rightarrow> error + CachedBeaconState"

text \<open>
  A \<open>WeakRef\<close> holds what \<open>deref()\<close> returns now: the state, or nothing once the
  state was collected. A \<open>Set\<close> of weak references iterates in insertion order and is
  a list. \<open>MapDef\<close> is a \<open>Map\<close> with a default for \<open>getOrDefault\<close>; its \<open>get\<close> is the
  plain lookup.
\<close>

datatype 'a WeakRef = WeakRef (deref: "'a option")

type_synonym DependantRootCache = "Epoch \<rightharpoonup> (RootHex \<rightharpoonup> CachedBeaconState WeakRef list)"

section \<open>Bounded job queue\<close>

text \<open>
  Modelled from the spec: the class \<open>JobItemQueue\<close> is imported from \<open>util/queue\<close>;
  \<open>queued.ts\<close> holds only its construction with \<open>maxLength: REGEN_QUEUE_MAX_LEN\<close> and the
  calls of \<open>push\<close>. The spec (4.5) gives it a capacity \<open>MAX_QUEUE\<close> on the in-flight
  plus pending jobs, FIFO order with a single consumer, and submissions past capacity
  that fail at once with \<open>QueueFull\<close>. The list \<open>jobs\<close> holds the job in flight (its
  head) followed by the pending ones.
\<close>

record 'j JobItemQueue =
  maxLength :: nat
  jobs :: "'j list"

definition newJobItemQueue :: "nat \<Rightarrow> 'j JobItemQueue" where
  "newJobItemQueue n = \<lparr>maxLength = n, jobs = []\<rparr>"

definition push :: "'j JobItemQueue \<Rightarrow> 'j \<Rightarrow> error + 'j JobItemQueue" where
  "push q job =
     (if maxLength q \<le> length (jobs q) then Inl QueueFull
      else Inr (q\<lparr>jobs := jobs q @ [job]\<rparr>))"

section \<open>The queued state regenerator\<close>

definition REGEN_QUEUE_MAX_LEN :: nat where
  "REGEN_QUEUE_MAX_LEN = 256"

text \<open>
  The fields of the class. The collaborators are shared objects that other parts of the
  node update; here they are fields whose values are whatever the collaborator answers
  at the moment of the call. A queued job is stored with the reaction attached to its
  promise. Metrics counters are left out: no property below reads them.

  The three dependant-root tables are declared without an initialiser, and the methods
  read \<open>this.store\<close> although the class declares no such member. A property that was
  never assigned is \<open>undefined\<close>: these four are optional values, \<open>None\<close> for
  \<open>undefined\<close>.
\<close>

record QueuedStateRegeneratorModules =
  forkChoice :: IForkChoice
  stateCache :: StateContextCache
  checkpointStateCache :: CheckpointStateCache

record QueuedStateRegenerator = QueuedStateRegeneratorModules +
  jobQueue :: "(RegenRequest \<times> Continuation) JobItemQueue"
  head :: HeadSummary
  headState :: "CachedBeaconState option"
  dependantRootCacheNext :: "DependantRootCache option"
  dependantRootCacheCurr :: "DependantRootCache option"
  dependantRootCachePrev :: "DependantRootCache option"
  store :: "Store option"

text \<open>
  The constructor assigns the head, the queue and the collaborators taken from the
  modules. It assigns neither the three tables nor \<open>store\<close>, and no other method of
  the class does.
\<close>

definition newQueuedStateRegenerator ::
  "QueuedStateRegeneratorModules \<Rightarrow> HeadSummary \<Rightarrow> QueuedStateRegenerator" where
  "newQueuedStateRegenerator modules head0 =
     \<lparr>forkChoice = forkChoice modules,
      stateCache = stateCache modules,
      checkpointStateCache = checkpointStateCache modules,
      jobQueue = newJobItemQueue REGEN_QUEUE_MAX_LEN,
      head = head0,
      headState = None,
      dependantRootCacheNext = None,
      dependantRootCacheCurr = None,
      dependantRootCachePrev = None,
      store = None\<rparr>"

subsection \<open>Dependant root resolver\<close>

text \<open>
  The \<open>while (block !== null)\<close> loop of \<open>getDependantRootAtEpoch\<close>. Nothing in the code
  bounds the walk (a table whose parent pointers cycle above the target slot keeps it
  running), so the loop is a partial function: \<open>None\<close> is "does not return",
  \<open>Some None\<close> is "left the loop with \<open>block === null\<close>", \<open>Some (Some r)\<close> is
  \<open>return r\<close>.
\<close>

partial_function (option) dependantRootWalk ::
  "IForkChoice \<Rightarrow> Slot \<Rightarrow> IProtoBlock option \<Rightarrow> RootHex option option" where
  "dependantRootWalk fc dependantRootNextSlot block =
     (case block of
        None \<Rightarrow> Some None
      | Some b \<Rightarrow>
          if IProtoBlock.slot b = dependantRootNextSlot then Some (Some (IProtoBlock.parentRoot b))
          else if IProtoBlock.slot b < dependantRootNextSlot then Some (Some (IProtoBlock.blockRoot b))
          else if IProtoBlock.blockRoot b = IProtoBlock.targetRoot b
            then dependantRootWalk fc dependantRootNextSlot
                   (getBlockHex fc (IProtoBlock.parentRoot b))
            else dependantRootWalk fc dependantRootNextSlot
                   (getBlockHex fc (IProtoBlock.targetRoot b)))"

declare dependantRootWalk.simps [code]

definition getDependantRootAtEpoch ::
  "IForkChoice \<Rightarrow> IProtoBlock \<Rightarrow> Epoch \<Rightarrow> (error + RootHex) option" where
  "getDependantRootAtEpoch fc fromBlock ep =
     (if ep \<le> 0 then
        (let finalizedCp = getFinalizedCheckpoint fc in
         if CheckpointHex.epoch finalizedCp = 0 then Some (Inr (rootHex finalizedCp))
         else Some (Inl (BeforeFinalized (CheckpointHex.epoch finalizedCp))))
      else
        (case dependantRootWalk fc (computeStartSlotAtEpoch ep) (Some fromBlock) of
           None \<Rightarrow> None
         | Some (Some r) \<Rightarrow> Some (Inr r)
         | Some None \<Rightarrow>
             (let finalizedEpoch = CheckpointHex.epoch (getFinalizedCheckpoint fc) in
              if ep < CheckpointHex.epoch (getFinalizedCheckpoint fc)
              then Some (Inl (BeforeFinalized finalizedEpoch))
              else Some (Inl (Unresolvable (IProtoBlock.blockRoot fromBlock)
                                           (IProtoBlock.slot fromBlock))))))"

text \<open>
  The algorithm in the words of the specification (4.1), as a relation between a block
  and the root it resolves to for a target slot.
\<close>

inductive dependant_root_spec :: "IForkChoice \<Rightarrow> Slot \<Rightarrow> IProtoBlock \<Rightarrow> RootHex \<Rightarrow> bool"
  for fc :: IForkChoice and target_slot :: Slot where
  at_target:
    "IProtoBlock.slot b = target_slot \<Longrightarrow>
     dependant_root_spec fc target_slot b (IProtoBlock.parentRoot b)"
| below_target:
    "IProtoBlock.slot b < target_slot \<Longrightarrow>
     dependant_root_spec fc target_slot b (IProtoBlock.blockRoot b)"
| step_parent:
    "target_slot < IProtoBlock.slot b \<Longrightarrow>
     IProtoBlock.blockRoot b = IProtoBlock.targetRoot b \<Longrightarrow>
     getBlockHex fc (IProtoBlock.parentRoot b) = Some b' \<Longrightarrow>
     dependant_root_spec fc target_slot b' r \<Longrightarrow>
     dependant_root_spec fc target_slot b r"
| step_target:
    "target_slot < IProtoBlock.slot b \<Longrightarrow>
     IProtoBlock.blockRoot b \<noteq> IProtoBlock.targetRoot b \<Longrightarrow>
     getBlockHex fc (IProtoBlock.targetRoot b) = Some b' \<Longrightarrow>
     dependant_root_spec fc target_slot b' r \<Longrightarrow>
     dependant_root_spec fc target_slot b r"

subsection \<open>Job queue plumbing\<close>

text \<open>
  Running a reaction once its promise settles. Only \<open>InstallHeadState\<close> touches the
  regenerator: its \<open>then\<close> branch assigns \<open>this.headState = state\<close>, its \<open>catch\<close>
  branch only rethrows.
\<close>

definition runContinuation ::
  "Continuation \<Rightarrow> error + CachedBeaconState \<Rightarrow> QueuedStateRegenerator \<Rightarrow> QueuedStateRegenerator" where
  "runContinuation k outcome r =
     (case k of
        ReturnToCaller \<Rightarrow> r
      | InstallHeadState \<Rightarrow>
          (case outcome of
             Inr st \<Rightarrow> r\<lparr>headState := Some st\<rparr>
           | Inl e \<Rightarrow> r))"

text \<open>
  \<open>return this.jobQueue.push({key, args})\<close>: the request joins the queue together with
  the reaction \<open>k\<close> attached to the returned promise, or the push fails at once.
\<close>

definition enqueue ::
  "Continuation \<Rightarrow> QueuedStateRegenerator \<Rightarrow> RegenRequest \<Rightarrow>
   CachedBeaconState Promise \<times> QueuedStateRegenerator" where
  "enqueue k r request =
     (case push (jobQueue r) (request, k) of
        Inl e \<Rightarrow> (Rejected e, runContinuation k (Inl e) r)
      | Inr q \<Rightarrow> (Pending, r\<lparr>jobQueue := q\<rparr>))"

text \<open>
  The single consumer finishes the job in flight with \<open>outcome\<close>, the answer of the
  regeneration engine (\<open>jobQueueProcessor\<close>): the job leaves the queue and the reaction
  attached to its promise runs.
\<close>

definition jobDone ::
  "QueuedStateRegenerator \<Rightarrow> error + CachedBeaconState \<Rightarrow> QueuedStateRegenerator" where
  "jobDone r outcome =
     (case jobs (jobQueue r) of
        [] \<Rightarrow> r
      | (request, k) # pending \<Rightarrow>
          runContinuation k outcome (r\<lparr>jobQueue := (jobQueue r)\<lparr>jobs := pending\<rparr>\<rparr>))"

subsection \<open>Facade\<close>

definition getHeadState :: "QueuedStateRegenerator \<Rightarrow> CachedBeaconState option" where
  "getHeadState r =
     (case headState r of
        Some st \<Rightarrow> Some st
      | None \<Rightarrow>
          if HeadSummary.stateRoot (head r) \<noteq> []
          then stateCache r (HeadSummary.stateRoot (head r))
          else None)"

text \<open>
  \<open>getState\<close> takes the reaction its caller attaches to the returned promise; the
  facade's outside callers pass \<open>ReturnToCaller\<close>.
\<close>

definition getState ::
  "Continuation \<Rightarrow> QueuedStateRegenerator \<Rightarrow> RootHex \<Rightarrow> RegenCaller \<Rightarrow>
   CachedBeaconState Promise \<times> QueuedStateRegenerator" where
  "getState k r stateRootHex rCaller =
     (case stateCache r stateRootHex of
        Some st \<Rightarrow> (Resolved st, runContinuation k (Inr st) r)
      | None \<Rightarrow> enqueue k r (GetState stateRootHex rCaller))"

definition getPreState ::
  "QueuedStateRegenerator \<Rightarrow> BeaconBlock \<Rightarrow> RegenCaller \<Rightarrow>
   CachedBeaconState Promise \<times> QueuedStateRegenerator" where
  "getPreState r block rCaller =
     (let parentRootHex = toHexString (BeaconBlock.parentRoot block) in
      case getBlockHex (forkChoice r) parentRootHex of
        None \<Rightarrow> (Rejected (BlockNotInForkChoice (BeaconBlock.parentRoot block)), r)
      | Some parentBlock \<Rightarrow>
          (let parentEpoch = computeEpochAtSlot (IProtoBlock.slot parentBlock);
               blockEpoch = computeEpochAtSlot (BeaconBlock.slot block)
           in case (if parentEpoch < blockEpoch
                    then getLatest (checkpointStateCache r) parentRootHex (AtMost blockEpoch)
                    else None) of
                Some checkpointState \<Rightarrow> (Resolved checkpointState, r)
              | None \<Rightarrow>
                  (case (if parentEpoch = blockEpoch
                         then stateCache r (IProtoBlock.stateRoot parentBlock)
                         else None) of
                     Some st \<Rightarrow> (Resolved st, r)
                   | None \<Rightarrow> enqueue ReturnToCaller r (GetPreState block rCaller))))"

definition getCheckpointState ::
  "QueuedStateRegenerator \<Rightarrow> Checkpoint \<Rightarrow> RegenCaller \<Rightarrow>
   CachedBeaconState Promise \<times> QueuedStateRegenerator" where
  "getCheckpointState r cp rCaller =
     (case get (checkpointStateCache r) (toCheckpointHex cp) of
        Some checkpointState \<Rightarrow> (Resolved checkpointState, r)
      | None \<Rightarrow> enqueue ReturnToCaller r (GetCheckpointState cp rCaller))"

definition getBlockSlotState ::
  "QueuedStateRegenerator \<Rightarrow> RootHex \<Rightarrow> Slot \<Rightarrow> RegenCaller \<Rightarrow>
   CachedBeaconState Promise \<times> QueuedStateRegenerator" where
  "getBlockSlotState r blockRootHex sl rCaller =
     enqueue ReturnToCaller r (GetBlockSlotState blockRootHex sl rCaller)"

subsection \<open>Head tracker\<close>

text \<open>
  \<open>setHead\<close> is synchronous. It throws when one of the three dependant roots cannot be
  resolved (then nothing was assigned), and it does not return when a walk does not.
  When no state is at hand it clears \<open>headState\<close> and calls \<open>getState\<close> with the
  \<open>then\<close>/\<open>catch\<close> reaction attached.
\<close>

definition bindDependantRoot ::
  "(error + RootHex) option \<Rightarrow> (RootHex \<Rightarrow> (error + 'a) option) \<Rightarrow> (error + 'a) option" where
  "bindDependantRoot m f =
     (case m of
        None \<Rightarrow> None
      | Some (Inl e) \<Rightarrow> Some (Inl e)
      | Some (Inr dependantRoot) \<Rightarrow> f dependantRoot)"

definition setHead ::
  "QueuedStateRegenerator \<Rightarrow> IProtoBlock \<Rightarrow> CachedBeaconState option \<Rightarrow>
   (error + QueuedStateRegenerator) option" where
  "setHead r headBlock potentialHeadState =
     (let headEpoch = computeEpochAtSlot (IProtoBlock.slot headBlock) in
      bindDependantRoot (getDependantRootAtEpoch (forkChoice r) headBlock headEpoch) (\<lambda>rootNext.
      bindDependantRoot (getDependantRootAtEpoch (forkChoice r) headBlock (max (headEpoch - 1) 0)) (\<lambda>rootCurr.
      bindDependantRoot (getDependantRootAtEpoch (forkChoice r) headBlock (max (headEpoch - 2) 0)) (\<lambda>rootPrev.
        (let r1 = r\<lparr>head :=
                     \<lparr>HeadSummary.stateRoot = IProtoBlock.stateRoot headBlock,
                      HeadSummary.blockRoot = IProtoBlock.blockRoot headBlock,
                      HeadSummary.slot = IProtoBlock.slot headBlock,
                      HeadSummary.epoch = headEpoch,
                      HeadSummary.targetRoot = IProtoBlock.targetRoot headBlock,
                      dependantRootNext = rootNext,
                      dependantRootCurr = rootCurr,
                      dependantRootPrev = rootPrev\<rparr>\<rparr>;
             fromCaches =
               (case getLatest (checkpointStateCache r1) (IProtoBlock.blockRoot headBlock) Infinity of
                  Some st \<Rightarrow> Some st
                | None \<Rightarrow> stateCache r1 (IProtoBlock.stateRoot headBlock));
             headState0 =
               (case potentialHeadState of
                  Some st \<Rightarrow>
                    if IProtoBlock.slot headBlock = CachedBeaconState.slot st \<and>
                       IProtoBlock.stateRoot headBlock = toHexString (hashTreeRoot st)
                    then Some st else fromCaches
                | None \<Rightarrow> fromCaches)
         in case headState0 of
              Some st \<Rightarrow> Some (Inr (r1\<lparr>headState := Some st\<rparr>))
            | None \<Rightarrow>
                Some (Inr (snd (getState InstallHeadState (r1\<lparr>headState := None\<rparr>)
                                  (IProtoBlock.stateRoot headBlock) regenHeadState))))))))"

subsection \<open>Attester shuffling lookup\<close>

text \<open>
  The loop \<open>for (const stateWeakRef of states)\<close>, written three times in
  \<open>getAttesterShuffling\<close>: return at the first reference that is still alive, delete the
  dead ones met before it. \<open>probe\<close> is the lookup \<open>cache.get(epoch)?.get(dependantRoot)\<close>
  followed by that loop; it gives back the table with the bucket pruned.
\<close>

fun firstLive :: "'a WeakRef list \<Rightarrow> 'a option \<times> 'a WeakRef list" where
  "firstLive [] = (None, [])"
| "firstLive (stateWeakRef # rest) =
     (case deref stateWeakRef of
        Some st \<Rightarrow> (Some st, stateWeakRef # rest)
      | None \<Rightarrow> firstLive rest)"

definition probe ::
  "DependantRootCache \<Rightarrow> Epoch \<Rightarrow> RootHex \<Rightarrow> CachedBeaconState option \<times> DependantRootCache" where
  "probe cache ep dependantRoot =
     (case cache ep of
        None \<Rightarrow> (None, cache)
      | Some byRoot \<Rightarrow>
          (case byRoot dependantRoot of
             None \<Rightarrow> (None, cache)
           | Some states \<Rightarrow>
               (case firstLive states of
                  (found, states') \<Rightarrow> (found, cache(ep \<mapsto> byRoot(dependantRoot \<mapsto> states'))))))"

text \<open>
  All three probes go to \<open>dependantRootCacheNext\<close>, as in the source. The first of
  them, \<open>this.dependantRootCacheNext.get(epochCurr)\<close>, throws a \<open>TypeError\<close> when the
  table is \<open>undefined\<close>, and so does \<open>this.store.readCheckpointState(..)\<close> when
  \<open>store\<close> is; inside the \<open>async\<close> method the throw rejects the returned promise.
\<close>

definition getAttesterShuffling ::
  "QueuedStateRegenerator \<Rightarrow> Checkpoint \<Rightarrow>
   (AttesterShuffling Promise \<times> QueuedStateRegenerator) option" where
  "getAttesterShuffling r targetCheckpoint =
     (case getBlock (forkChoice r) (root targetCheckpoint) of
        None \<Rightarrow>
          Some (Rejected (TargetBlockNotFound (root targetCheckpoint)
                            (Checkpoint.epoch targetCheckpoint)), r)
      | Some targetBlock \<Rightarrow>
          (let epochCurr = Checkpoint.epoch targetCheckpoint;
               epochNext = max (epochCurr - 1) 0;
               epochPrev = epochCurr + 1
           in case getDependantRootAtEpoch (forkChoice r) targetBlock epochNext of
                None \<Rightarrow> None
              | Some (Inl e) \<Rightarrow> Some (Rejected e, r)
              | Some (Inr dependantRoot) \<Rightarrow>
                  (case (case headState r of
                           None \<Rightarrow> None
                         | Some hs \<Rightarrow>
                             if HeadSummary.epoch (head r) = epochCurr then
                               (if dependantRootCurr (head r) = dependantRoot
                                then Some (currentShuffling hs) else None)
                             else if HeadSummary.epoch (head r) = epochNext then
                               (if dependantRootNext (head r) = dependantRoot
                                then Some (nextShuffling hs) else None)
                             else if HeadSummary.epoch (head r) = epochPrev then
                               (if dependantRootPrev (head r) = dependantRoot
                                then Some (previousShuffling hs) else None)
                             else None) of
                     Some shuffling \<Rightarrow> Some (Resolved shuffling, r)
                   | None \<Rightarrow>
                       (case dependantRootCacheNext r of
                          None \<Rightarrow> Some (Rejected TypeError, r)
                        | Some c0 \<Rightarrow>
                       (case probe c0 epochCurr dependantRoot of
                          (Some st, c1) \<Rightarrow>
                            Some (Resolved (currentShuffling st),
                                  r\<lparr>dependantRootCacheNext := Some c1\<rparr>)
                        | (None, c1) \<Rightarrow>
                            (case probe c1 epochNext dependantRoot of
                               (Some st, c2) \<Rightarrow>
                                 Some (Resolved (nextShuffling st),
                                       r\<lparr>dependantRootCacheNext := Some c2\<rparr>)
                             | (None, c2) \<Rightarrow>
                                 (case probe c2 epochPrev dependantRoot of
                                    (Some st, c3) \<Rightarrow>
                                      Some (Resolved (previousShuffling st),
                                            r\<lparr>dependantRootCacheNext := Some c3\<rparr>)
                                  | (None, c3) \<Rightarrow>
                                      (case store r of
                                         None \<Rightarrow>
                                           Some (Rejected TypeError,
                                                 r\<lparr>dependantRootCacheNext := Some c3\<rparr>)
                                       | Some readCheckpointState \<Rightarrow>
                                      (case readCheckpointState epochNext dependantRoot of
                                         Inl e \<Rightarrow>
                                           Some (Rejected e, r\<lparr>dependantRootCacheNext := Some c3\<rparr>)
                                       | Inr st \<Rightarrow>
                                           Some (Resolved (nextShuffling st),
                                                 r\<lparr>dependantRootCacheNext := Some c3\<rparr>))))))))))"

subsection \<open>Histories of the regenerator\<close>

text \<open>
  Modelled from the spec: the cancellation signal handed to the queue rejects every
  pending and in-flight job with \<open>Cancelled\<close> (4.5, 5).
\<close>

definition abortJobs :: "QueuedStateRegenerator \<Rightarrow> QueuedStateRegenerator" where
  "abortJobs r =
     foldl (\<lambda>r' job. runContinuation (snd job) (Inl Cancelled) r')
       (r\<lparr>jobQueue := (jobQueue r)\<lparr>jobs := []\<rparr>\<rparr>) (jobs (jobQueue r))"

text \<open>
  The states a regenerator can be in: built by the constructor, then any sequence of
  facade calls, head updates, job completions and cancellations, while the collaborators
  change in any way between the calls. The rule \<open>collaborators\<close> also lets the three
  tables and \<open>store\<close> take any value, which only adds states.
\<close>

inductive reachable :: "QueuedStateRegenerator \<Rightarrow> bool" where
  constructed: "reachable (newQueuedStateRegenerator modules head0)"
| collaborators:
    "reachable r \<Longrightarrow>
     reachable (r\<lparr>forkChoice := fc, stateCache := sc, checkpointStateCache := cc, store := sto,
                  dependantRootCacheNext := tableNext, dependantRootCacheCurr := tableCurr,
                  dependantRootCachePrev := tablePrev\<rparr>)"
| called_getPreState: "reachable r \<Longrightarrow> reachable (snd (getPreState r block rCaller))"
| called_getCheckpointState: "reachable r \<Longrightarrow> reachable (snd (getCheckpointState r cp rCaller))"
| called_getBlockSlotState:
    "reachable r \<Longrightarrow> reachable (snd (getBlockSlotState r blockRootHex sl rCaller))"
| called_getState: "reachable r \<Longrightarrow> reachable (snd (getState k r stateRootHex rCaller))"
| called_setHead:
    "reachable r \<Longrightarrow> setHead r headBlock potentialHeadState = Some (Inr r') \<Longrightarrow> reachable r'"
| called_getAttesterShuffling:
    "reachable r \<Longrightarrow> getAttesterShuffling r targetCheckpoint = Some (answer, r') \<Longrightarrow> reachable r'"
| job_done: "reachable r \<Longrightarrow> reachable (jobDone r outcome)"
| aborted: "reachable r \<Longrightarrow> reachable (abortJobs r)"

text \<open>
  \<open>history heads r n r'\<close>: the regenerator went from \<open>r\<close> to \<open>r'\<close> through any
  sequence of calls and changes of the collaborators during which exactly \<open>n\<close> jobs
  completed and the queue was not cancelled; calls of \<open>setHead\<close> are among them only
  when \<open>heads\<close> holds.
\<close>

inductive history :: "bool \<Rightarrow> QueuedStateRegenerator \<Rightarrow> nat \<Rightarrow> QueuedStateRegenerator \<Rightarrow> bool"
  for heads :: bool and r :: QueuedStateRegenerator where
  start: "history heads r 0 r"
| collaborators:
    "history heads r n r' \<Longrightarrow>
     history heads r n
       (r'\<lparr>forkChoice := fc, stateCache := sc, checkpointStateCache := cc, store := sto,
           dependantRootCacheNext := tableNext, dependantRootCacheCurr := tableCurr,
           dependantRootCachePrev := tablePrev\<rparr>)"
| called_getPreState:
    "history heads r n r' \<Longrightarrow> history heads r n (snd (getPreState r' block rCaller))"
| called_getCheckpointState:
    "history heads r n r' \<Longrightarrow> history heads r n (snd (getCheckpointState r' cp rCaller))"
| called_getBlockSlotState:
    "history heads r n r' \<Longrightarrow>
     history heads r n (snd (getBlockSlotState r' blockRootHex sl rCaller))"
| called_getState:
    "history heads r n r' \<Longrightarrow>
     history heads r n (snd (getState ReturnToCaller r' stateRootHex rCaller))"
| called_getAttesterShuffling:
    "history heads r n r' \<Longrightarrow> getAttesterShuffling r' targetCheckpoint = Some (answer, r'') \<Longrightarrow>
     history heads r n r''"
| called_setHead:
    "heads \<Longrightarrow> history heads r n r' \<Longrightarrow>
     setHead r' headBlock potentialHeadState = Some (Inr r'') \<Longrightarrow> history heads r n r''"
| job_done: "history heads r n r' \<Longrightarrow> history heads r (Suc n) (jobDone r' outcome)"

section \<open>Capella block processing\<close>

text \<open>
  The second source file holds \<open>processBlsToExecutionChange\<close> and
  \<open>getExpectedWithdrawals\<close>. Validator indices, balances (Gwei), epochs and withdrawal
  indices are JavaScript numbers holding non-negative integers, exact as long as they stay
  below \<open>2^53\<close>: \<open>nat\<close>. The constants
  imported from the parameter package (\<open>@lodestar/params\<close>) are taken
  as the record \<open>Params\<close>; \<open>WITHDRAWAL_PREFIX_BYTES\<close> is 1, as the comment in
  \<open>getExpectedWithdrawals\<close> says. The SHA-256 \<open>digest\<close> is a parameter of
  \<open>processBlsToExecutionChange\<close>.
\<close>

record Params =
  BLS_WITHDRAWAL_PREFIX :: "byte list"
  ETH1_ADDRESS_WITHDRAWAL_PREFIX :: "byte list"
  MAX_EFFECTIVE_BALANCE :: nat
  MAX_WITHDRAWALS_PER_PAYLOAD :: nat

definition WITHDRAWAL_PREFIX_BYTES :: nat where
  "WITHDRAWAL_PREFIX_BYTES = 1"

record Validator =
  effectiveBalance :: nat
  withdrawalCredentials :: "byte list"
  withdrawableEpoch :: nat

record EpochContext =
  epoch :: nat

record CachedBeaconStateCapella =
  epochCtx :: EpochContext
  nextWithdrawalIndex :: nat
  nextWithdrawalValidatorIndex :: nat
  validators :: "Validator list"
  balances :: "nat list"

record Withdrawal =
  index :: nat
  validatorIndex :: nat
  address :: "byte list"
  amount :: nat

record BLSToExecutionChange =
  validatorIndex :: nat
  fromBlsPubkey :: "byte list"
  toExecutionAddress :: "byte list"

record SignedBLSToExecutionChange =
  message :: BLSToExecutionChange
  signature :: "byte list"

datatype transition_error =
    InvalidValidatorIndex nat nat
  | InvalidWithdrawalCredentialsPrefix "byte list" "byte list"
  | InvalidWithdrawalCredentials "byte list"
  | RangeError
  | IndexOutOfRange nat

subsection \<open>Typed arrays\<close>

text \<open>
  \<open>Uint8Array.prototype.slice(start, end)\<close> and \<open>slice(start)\<close> for non-negative
  arguments: both ends are clamped to the length. \<open>set(source, offset)\<close> copies the
  source over the target at the offset and throws a \<open>RangeError\<close> when it does not fit.
  Indexing outside the array gives \<open>undefined\<close>: \<open>None\<close>.
\<close>

definition slice :: "'a list \<Rightarrow> nat \<Rightarrow> nat \<Rightarrow> 'a list" where
  "slice xs start stop = drop start (take stop xs)"

definition sliceFrom :: "'a list \<Rightarrow> nat \<Rightarrow> 'a list" where
  "sliceFrom xs start = drop start xs"

definition typedArraySet :: "'a list \<Rightarrow> 'a list \<Rightarrow> nat \<Rightarrow> transition_error + 'a list" where
  "typedArraySet target source offset =
     (if length target < offset + length source then Inl RangeError
      else Inr (take offset target @ source @ drop (offset + length source) target))"

definition at :: "'a list \<Rightarrow> nat \<Rightarrow> 'a option" where
  "at xs i = (if i < length xs then Some (xs ! i) else None)"

subsection \<open>BLS to execution change\<close>

text \<open>
  \<open>validator.withdrawalCredentials\<close> is the byte array held by the validator of the
  state; \<open>set\<close> writes into it in place. \<open>withCredentials\<close> is the state after such a
  write. The function returns the exception thrown, if any, together with the state
  as the call leaves it.
\<close>

definition withCredentials ::
  "CachedBeaconStateCapella \<Rightarrow> nat \<Rightarrow> byte list \<Rightarrow> CachedBeaconStateCapella" where
  "withCredentials state i credentials =
     state\<lparr>validators := (validators state)
              [i := (validators state ! i)\<lparr>withdrawalCredentials := credentials\<rparr>]\<rparr>"

definition processBlsToExecutionChange ::
  "Params \<Rightarrow> (byte list \<Rightarrow> byte list) \<Rightarrow> CachedBeaconStateCapella \<Rightarrow>
   SignedBLSToExecutionChange \<Rightarrow> transition_error option \<times> CachedBeaconStateCapella" where
  "processBlsToExecutionChange P digest state signedBlsToExecutionChange =
     (let addressChange = message signedBlsToExecutionChange;
          i = BLSToExecutionChange.validatorIndex addressChange
      in if length (validators state) \<le> i
         then (Some (InvalidValidatorIndex (length (validators state)) i), state)
         else
           (let validator = validators state ! i;
                credentialPrefix = slice (withdrawalCredentials validator) 0 WITHDRAWAL_PREFIX_BYTES
            in if credentialPrefix \<noteq> BLS_WITHDRAWAL_PREFIX P
               then (Some (InvalidWithdrawalCredentialsPrefix (BLS_WITHDRAWAL_PREFIX P) credentialPrefix),
                     state)
               else if slice (withdrawalCredentials validator) WITHDRAWAL_PREFIX_BYTES 32 \<noteq>
                       slice (digest (fromBlsPubkey addressChange)) WITHDRAWAL_PREFIX_BYTES 32
               then (Some (InvalidWithdrawalCredentials
                             (slice (withdrawalCredentials validator) WITHDRAWAL_PREFIX_BYTES 32)),
                     state)
               else
                 (case typedArraySet (withdrawalCredentials validator)
                         (ETH1_ADDRESS_WITHDRAWAL_PREFIX P) 0 of
                    Inl e \<Rightarrow> (Some e, state)
                  | Inr c1 \<Rightarrow>
                      (case typedArraySet c1 (replicate 11 0) WITHDRAWAL_PREFIX_BYTES of
                         Inl e \<Rightarrow> (Some e, withCredentials state i c1)
                       | Inr c2 \<Rightarrow>
                           (case typedArraySet c2 (toExecutionAddress addressChange) 12 of
                              Inl e \<Rightarrow> (Some e, withCredentials state i c2)
                            | Inr c3 \<Rightarrow> (None, withCredentials state i c3))))))"

subsection \<open>Expected withdrawals\<close>

text \<open>
  The \<open>for\<close> loop of \<open>getExpectedWithdrawals\<close> with its loop variables as arguments:
  the counter \<open>i\<close>, \<open>withdrawalIndex\<close>, the cursor \<open>vi\<close> (\<open>validatorIndex\<close>) and the
  list built so far. Reading \<open>validators\<close> or \<open>balances\<close> outside their length is a
  failure; it cannot happen in a state whose cursor is inside the validator list and
  whose two lists have the same length.
\<close>

function withdrawalsLoop ::
  "Params \<Rightarrow> CachedBeaconStateCapella \<Rightarrow> nat \<Rightarrow> nat \<Rightarrow> nat \<Rightarrow> nat \<Rightarrow> Withdrawal list \<Rightarrow>
   transition_error + Withdrawal list" where
  "withdrawalsLoop P state currentEpoch i withdrawalIndex vi withdrawals =
     (if i < length (validators state) then
        (if length (validators state) \<le> vi then Inl (IndexOutOfRange vi)
         else if length (balances state) \<le> vi then Inl (IndexOutOfRange vi)
         else
           (let validator = validators state ! vi;
                balance = balances state ! vi;
                hit = (((0 < balance \<and> withdrawableEpoch validator \<le> currentEpoch) \<or>
                        (effectiveBalance validator = MAX_EFFECTIVE_BALANCE P \<and>
                         MAX_EFFECTIVE_BALANCE P < balance)) \<and>
                       at (withdrawalCredentials validator) 0 =
                       at (ETH1_ADDRESS_WITHDRAWAL_PREFIX P) 0);
                withdrawals' =
                  (if hit then
                     withdrawals @
                     [\<lparr>index = withdrawalIndex,
                       Withdrawal.validatorIndex = vi,
                       address = sliceFrom (withdrawalCredentials validator) 12,
                       amount = (if withdrawableEpoch validator \<le> currentEpoch then balance
                                 else balance - MAX_EFFECTIVE_BALANCE P)\<rparr>]
                   else withdrawals);
                withdrawalIndex' = (if hit then withdrawalIndex + 1 else withdrawalIndex)
            in if MAX_WITHDRAWALS_PER_PAYLOAD P \<le> length withdrawals' then Inr withdrawals'
               else withdrawalsLoop P state currentEpoch (i + 1) withdrawalIndex'
                      ((vi + 1) mod length (validators state)) withdrawals'))
      else Inr withdrawals)"
  by pat_completeness auto
termination
  by (relation "measure (\<lambda>(P, state, currentEpoch, i, withdrawalIndex, vi, withdrawals).
                           length (validators state) - i)") auto

definition getExpectedWithdrawals ::
  "Params \<Rightarrow> CachedBeaconStateCapella \<Rightarrow> transition_error + Withdrawal list" where
  "getExpectedWithdrawals P state =
     withdrawalsLoop P state (EpochContext.epoch (epochCtx state) + 1) 0
       (nextWithdrawalIndex state) (nextWithdrawalValidatorIndex state) []"

declare withdrawalsLoop.simps [simp del]

section \<open>Concrete scenarios\<close>

text \<open>
  The chain of the specification's third scenario: genesis at slot 0, \<open>A\<close> at slot 5,
  \<open>B\<close> at slot 40 with target \<open>A\<close>, \<open>C\<close> at slot 45 with target \<open>B\<close>; nothing
  finalized beyond genesis.
\<close>

definition blkG :: IProtoBlock where
  "blkG = \<lparr>IProtoBlock.slot = 0, IProtoBlock.blockRoot = ''0x00'', IProtoBlock.parentRoot = ''0x00'',
           IProtoBlock.stateRoot = ''0xf0'', IProtoBlock.targetRoot = ''0x00''\<rparr>"

definition blkA :: IProtoBlock where
  "blkA = \<lparr>IProtoBlock.slot = 5, IProtoBlock.blockRoot = ''0x0a'', IProtoBlock.parentRoot = ''0x00'',
           IProtoBlock.stateRoot = ''0xa5'', IProtoBlock.targetRoot = ''0x00''\<rparr>"

definition blkB :: IProtoBlock where
  "blkB = \<lparr>IProtoBlock.slot = 40, IProtoBlock.blockRoot = ''0x0b'', IProtoBlock.parentRoot = ''0x0a'',
           IProtoBlock.stateRoot = ''0xb5'', IProtoBlock.targetRoot = ''0x0a''\<rparr>"

definition blkC :: IProtoBlock where
  "blkC = \<lparr>IProtoBlock.slot = 45, IProtoBlock.blockRoot = ''0x0c'', IProtoBlock.parentRoot = ''0x0b'',
           IProtoBlock.stateRoot = ''0xc5'', IProtoBlock.targetRoot = ''0x0b''\<rparr>"

definition fcA :: IForkChoice where
  "fcA = \<lparr>blocks = [''0x00'' \<mapsto> blkG, ''0x0a'' \<mapsto> blkA, ''0x0b'' \<mapsto> blkB, ''0x0c'' \<mapsto> blkC],
          finalizedCheckpoint = \<lparr>CheckpointHex.epoch = 0, rootHex = ''0x00''\<rparr>\<rparr>"

definition fcLate :: IForkChoice where
  "fcLate = fcA\<lparr>finalizedCheckpoint := \<lparr>CheckpointHex.epoch = 3, rootHex = ''0x0f''\<rparr>\<rparr>"


definition stateC5 :: CachedBeaconState where
  "stateC5 = \<lparr>CachedBeaconState.slot = 45, hashTreeRoot = [0xc5], proposers = [1],
              currentShuffling = [0, 1], nextShuffling = [1, 0], previousShuffling = [1, 0]\<rparr>"

definition stateS :: CachedBeaconState where
  "stateS = \<lparr>CachedBeaconState.slot = 32, hashTreeRoot = [0xaa], proposers = [2],
             currentShuffling = [2, 1, 0], nextShuffling = [0, 2, 1], previousShuffling = [1, 0, 2]\<rparr>"

definition stateCp :: CachedBeaconState where
  "stateCp = \<lparr>CachedBeaconState.slot = 32, hashTreeRoot = [0xdd], proposers = [1],
              currentShuffling = [0, 1, 2], nextShuffling = [2, 0, 1], previousShuffling = [1, 2, 0]\<rparr>"

definition headG :: HeadSummary where
  "headG = \<lparr>HeadSummary.stateRoot = ''0xf0'', HeadSummary.blockRoot = ''0x00'', HeadSummary.slot = 0,
            HeadSummary.epoch = 0, HeadSummary.targetRoot = ''0x00'', dependantRootNext = ''0x00'',
            dependantRootCurr = ''0x00'', dependantRootPrev = ''0x00''\<rparr>"

text \<open>A fresh regenerator over that chain, with empty caches.\<close>

definition modulesA :: QueuedStateRegeneratorModules where
  "modulesA = \<lparr>forkChoice = fcA, stateCache = Map.empty,
               checkpointStateCache = \<lparr>get = (\<lambda>cp. None), getLatest = (\<lambda>rt mx. None)\<rparr>\<rparr>"

definition regenA :: QueuedStateRegenerator where
  "regenA = newQueuedStateRegenerator modulesA headG"

text \<open>
  The two states that follow \<open>regenA\<close> when \<open>setHead\<close> is called for \<open>A\<close> with no state at
  hand, and then for \<open>C\<close> with its state.
\<close>

definition headA :: HeadSummary where
  "headA = \<lparr>HeadSummary.stateRoot = ''0xa5'', HeadSummary.blockRoot = ''0x0a'', HeadSummary.slot = 5,
            HeadSummary.epoch = 0, HeadSummary.targetRoot = ''0x00'', dependantRootNext = ''0x00'',
            dependantRootCurr = ''0x00'', dependantRootPrev = ''0x00''\<rparr>"

definition headC :: HeadSummary where
  "headC = \<lparr>HeadSummary.stateRoot = ''0xc5'', HeadSummary.blockRoot = ''0x0c'', HeadSummary.slot = 45,
            HeadSummary.epoch = 1, HeadSummary.targetRoot = ''0x0b'', dependantRootNext = ''0x0a'',
            dependantRootCurr = ''0x00'', dependantRootPrev = ''0x00''\<rparr>"

definition regenA1 :: QueuedStateRegenerator where
  "regenA1 = regenA\<lparr>head := headA,
                    jobQueue := \<lparr>maxLength = 256,
                                 jobs = [(GetState ''0xa5'' regenHeadState, InstallHeadState)]\<rparr>\<rparr>"

definition regenA2 :: QueuedStateRegenerator where
  "regenA2 = regenA1\<lparr>head := headC, headState := Some stateC5\<rparr>"

text \<open>
  The first two scenarios of the specification: a parent at slot 32 whose state is in the
  state cache, and a parent at slot 31 with a checkpoint state for epoch 1.
\<close>

definition blkP1 :: IProtoBlock where
  "blkP1 = \<lparr>IProtoBlock.slot = 32, IProtoBlock.blockRoot = ''0xbb'', IProtoBlock.parentRoot = ''0x00'',
            IProtoBlock.stateRoot = ''0xaa'', IProtoBlock.targetRoot = ''0xbb''\<rparr>"

definition blkP2 :: IProtoBlock where
  "blkP2 = \<lparr>IProtoBlock.slot = 31, IProtoBlock.blockRoot = ''0xcc'', IProtoBlock.parentRoot = ''0x00'',
            IProtoBlock.stateRoot = ''0xee'', IProtoBlock.targetRoot = ''0x00''\<rparr>"

definition regenPre :: QueuedStateRegenerator where
  "regenPre = regenA
     \<lparr>forkChoice := \<lparr>blocks = [''0x00'' \<mapsto> blkG, ''0xbb'' \<mapsto> blkP1, ''0xcc'' \<mapsto> blkP2],
                      finalizedCheckpoint = \<lparr>CheckpointHex.epoch = 0, rootHex = ''0x00''\<rparr>\<rparr>,
      stateCache := [''0xaa'' \<mapsto> stateS],
      checkpointStateCache :=
        \<lparr>get = (\<lambda>cp. None),
         getLatest = (\<lambda>rt mx. if rt = ''0xcc'' \<and> mx = AtMost 1 then Some stateCp else None)\<rparr>\<rparr>"

definition block35 :: BeaconBlock where
  "block35 = \<lparr>BeaconBlock.slot = 35, BeaconBlock.parentRoot = [0xbb]\<rparr>"

definition block32 :: BeaconBlock where
  "block32 = \<lparr>BeaconBlock.slot = 32, BeaconBlock.parentRoot = [0xcc]\<rparr>"

definition block70 :: BeaconBlock where
  "block70 = \<lparr>BeaconBlock.slot = 70, BeaconBlock.parentRoot = [0xbb]\<rparr>"

definition blockOrphan :: BeaconBlock where
  "blockOrphan = \<lparr>BeaconBlock.slot = 36, BeaconBlock.parentRoot = [0x77]\<rparr>"

text \<open>
  A target checkpoint at epoch 0 whose root is the block \<open>A\<close>.
\<close>

definition cp0 :: Checkpoint where
  "cp0 = \<lparr>Checkpoint.epoch = 0, root = [0x0a]\<rparr>"





text \<open>A block on \<open>A\<close> in the epoch of \<open>A\<close>; no cache of \<open>regenA\<close> has a state for it.\<close>

definition block6 :: BeaconBlock where
  "block6 = \<lparr>BeaconBlock.slot = 6, BeaconBlock.parentRoot = [0x0a]\<rparr>"

text \<open>A regenerator whose queue was filled by 256 requests that no cache answers.\<close>

definition regenFull :: QueuedStateRegenerator where
  "regenFull = ((\<lambda>r. snd (getBlockSlotState r ''0x0a'' 5 (otherCaller ''api''))) ^^ 256) regenA"

text \<open>The members of the class that no method assigns.\<close>

definition unassigned_members ::
  "QueuedStateRegenerator \<Rightarrow>
   DependantRootCache option \<times> DependantRootCache option \<times> DependantRootCache option \<times>
   Store option" where
  "unassigned_members r =
     (dependantRootCacheNext r, dependantRootCacheCurr r, dependantRootCachePrev r, store r)"

text \<open>The invariant of the job queue.\<close>

definition queue_bounded :: "'j JobItemQueue \<Rightarrow> bool" where
  "queue_bounded q \<longleftrightarrow> maxLength q = REGEN_QUEUE_MAX_LEN \<and> length (jobs q) \<le> REGEN_QUEUE_MAX_LEN"

text \<open>
  Capella: a state of three validators with execution credentials together with the
  withdrawals expected from it, and a state with one validator whose BLS credentials
  commit to the digest that \<open>digest5\<close> gives every key.
\<close>

definition paramsW :: Params where
  "paramsW = \<lparr>BLS_WITHDRAWAL_PREFIX = [0], ETH1_ADDRESS_WITHDRAWAL_PREFIX = [1],
              MAX_EFFECTIVE_BALANCE = 32, MAX_WITHDRAWALS_PER_PAYLOAD = 2\<rparr>"

definition stateW :: CachedBeaconStateCapella where
  "stateW =
     \<lparr>epochCtx = \<lparr>EpochContext.epoch = 5\<rparr>,
      nextWithdrawalIndex = 7,
      nextWithdrawalValidatorIndex = 1,
      validators =
        [\<lparr>effectiveBalance = 32, withdrawalCredentials = 1 # replicate 31 0xa0, withdrawableEpoch = 100\<rparr>,
         \<lparr>effectiveBalance = 0, withdrawalCredentials = 1 # replicate 31 0xa1, withdrawableEpoch = 3\<rparr>,
         \<lparr>effectiveBalance = 32, withdrawalCredentials = 1 # replicate 31 0xa2, withdrawableEpoch = 3\<rparr>],
      balances = [40, 0, 50]\<rparr>"

definition withdrawalsW :: "Withdrawal list" where
  "withdrawalsW =
     [\<lparr>index = 7, Withdrawal.validatorIndex = 2, address = replicate 20 0xa2, amount = 50\<rparr>,
      \<lparr>index = 8, Withdrawal.validatorIndex = 0, address = replicate 20 0xa0, amount = 8\<rparr>]"

definition digest5 :: "byte list \<Rightarrow> byte list" where
  "digest5 pubkey = replicate 32 5"

definition stateBls :: CachedBeaconStateCapella where
  "stateBls =
     \<lparr>epochCtx = \<lparr>EpochContext.epoch = 5\<rparr>,
      nextWithdrawalIndex = 0,
      nextWithdrawalValidatorIndex = 0,
      validators =
        [\<lparr>effectiveBalance = 32, withdrawalCredentials = 0 # replicate 31 5, withdrawableEpoch = 100\<rparr>],
      balances = [32]\<rparr>"

definition changeOk :: SignedBLSToExecutionChange where
  "changeOk = \<lparr>message = \<lparr>BLSToExecutionChange.validatorIndex = 0, fromBlsPubkey = replicate 48 9,
                           toExecutionAddress = replicate 20 0xee\<rparr>,
               signature = []\<rparr>"

definition changeBadIndex :: SignedBLSToExecutionChange where
  "changeBadIndex = \<lparr>message = \<lparr>BLSToExecutionChange.validatorIndex = 1, fromBlsPubkey = replicate 48 9,
                                 toExecutionAddress = replicate 20 0xee\<rparr>,
                     signature = []\<rparr>"

section \<open>Evaluation lemmas\<close>

lemma dependantRootWalk_None: "dependantRootWalk fc t None = Some None"
  by (subst dependantRootWalk.simps) simp

lemma dependantRootWalk_Some:
  "dependantRootWalk fc t (Some b) =
     (if IProtoBlock.slot b = t then Some (Some (IProtoBlock.parentRoot b))
      else if IProtoBlock.slot b < t then Some (Some (IProtoBlock.blockRoot b))
      else if IProtoBlock.blockRoot b = IProtoBlock.targetRoot b
        then dependantRootWalk fc t (getBlockHex fc (IProtoBlock.parentRoot b))
        else dependantRootWalk fc t (getBlockHex fc (IProtoBlock.targetRoot b)))"
  by (subst dependantRootWalk.simps) simp

lemmas chain_defs = fcA_def fcLate_def blkG_def blkA_def blkB_def blkC_def getBlockHex_def
  getFinalizedCheckpoint_def computeStartSlotAtEpoch_def computeEpochAtSlot_def SLOTS_PER_EPOCH_def

lemmas regen_defs = regenA_def modulesA_def newQueuedStateRegenerator_def newJobItemQueue_def
  REGEN_QUEUE_MAX_LEN_def headG_def

lemma toHexString_values:
  "toHexString [0xa5] = ''0xa5''" "toHexString [0xc5] = ''0xc5''" "toHexString [0xaa] = ''0xaa''"
  "toHexString [0xbb] = ''0xbb''" "toHexString [0xcc] = ''0xcc''" "toHexString [0x77] = ''0x77''"
  "toHexString [0x0a] = ''0x0a''" "toHexString [0x0e] = ''0x0e''"
  by (simp_all add: toHexString_def hexDigit_def)

lemma dependant_root_of_C: "getDependantRootAtEpoch fcA blkC 1 = Some (Inr ''0x0a'')"
  by (simp add: getDependantRootAtEpoch_def dependantRootWalk_Some dependantRootWalk_None chain_defs)

section \<open>The dependant root resolver\<close>

lemma spec_imp_walk:
  "dependant_root_spec fc t b r \<Longrightarrow> dependantRootWalk fc t (Some b) = Some (Some r)"
  by (induction rule: dependant_root_spec.induct) (simp_all add: dependantRootWalk_Some)

lemma walk_imp_spec:
  assumes "dependantRootWalk fc t blk = Some res"
  shows "\<forall>r. res = Some r \<longrightarrow> (\<exists>b. blk = Some b \<and> dependant_root_spec fc t b r)"
proof (rule dependantRootWalk.raw_induct
    [where P = "\<lambda>fc t blk res. \<forall>r. res = Some r \<longrightarrow> (\<exists>b. blk = Some b \<and> dependant_root_spec fc t b r)",
     OF _ assms], goal_cases)
  case (1 walk fc t blk res)
  show ?case
  proof (intro allI impI)
    fix r assume res: "res = Some r"
    with 1(2) obtain b where blk: "blk = Some b" by (cases blk) auto
    consider (eq) "IProtoBlock.slot b = t" | (lt) "IProtoBlock.slot b < t"
      | (par) "t < IProtoBlock.slot b" "IProtoBlock.blockRoot b = IProtoBlock.targetRoot b"
      | (tgt) "t < IProtoBlock.slot b" "IProtoBlock.blockRoot b \<noteq> IProtoBlock.targetRoot b"
      by linarith
    then have "dependant_root_spec fc t b r"
    proof cases
      case eq
      with 1(2) blk res show ?thesis by (auto intro: dependant_root_spec.at_target)
    next
      case lt
      with 1(2) blk res show ?thesis by (auto intro: dependant_root_spec.below_target)
    next
      case par
      with 1(2) blk res
      have w: "walk fc t (getBlockHex fc (IProtoBlock.parentRoot b)) = Some (Some r)" by simp
      from 1(1)[OF w] obtain b' where
        "getBlockHex fc (IProtoBlock.parentRoot b) = Some b'" "dependant_root_spec fc t b' r"
        by auto
      with par show ?thesis by (auto intro: dependant_root_spec.step_parent)
    next
      case tgt
      with 1(2) blk res
      have w: "walk fc t (getBlockHex fc (IProtoBlock.targetRoot b)) = Some (Some r)" by simp
      from 1(1)[OF w] obtain b' where
        "getBlockHex fc (IProtoBlock.targetRoot b) = Some b'" "dependant_root_spec fc t b' r"
        by auto
      with tgt show ?thesis by (auto intro: dependant_root_spec.step_target)
    qed
    with blk show "\<exists>b. blk = Some b \<and> dependant_root_spec fc t b r" by simp
  qed
qed

lemma walk_iff_spec:
  "dependantRootWalk fc t (Some b) = Some (Some r) \<longleftrightarrow> dependant_root_spec fc t b r"
  using walk_imp_spec[of fc t "Some b" "Some r"] spec_imp_walk by auto

text \<open>
  C1. For an epoch \<open>E \<ge> 1\<close> and any block \<open>b\<close>, \<open>getDependantRootAtEpoch\<close> returns the
  root \<open>r\<close> exactly when the algorithm of the specification, run from \<open>b\<close> with
  \<open>target_slot = first_slot_of_epoch(E)\<close>, arrives at \<open>r\<close>: the parent root of a block at
  the target slot, the own root of a block below it, and otherwise the answer for the
  parent (when the block is its own target) or for the target.
\<close>

theorem dependant_root_follows_algorithm:
  assumes "1 \<le> E"
  shows "getDependantRootAtEpoch fc b E = Some (Inr r) \<longleftrightarrow>
         dependant_root_spec fc (computeStartSlotAtEpoch E) b r"
  using assms unfolding getDependantRootAtEpoch_def walk_iff_spec[symmetric]
  by (auto simp: Let_def split: option.splits)

theorem dependant_root_follows_algorithm_witness:
  "(1::int) \<le> 1 \<and> dependant_root_spec fcA (computeStartSlotAtEpoch 1) blkC (IProtoBlock.blockRoot blkA)"
proof -
  have "(1::int) \<le> 1" by simp
  from dependant_root_follows_algorithm[OF this, of fcA blkC "''0x0a''"] dependant_root_of_C
  have "dependant_root_spec fcA (computeStartSlotAtEpoch 1) blkC ''0x0a''" by blast
  then show ?thesis by (simp add: blkA_def)
qed

text \<open>
  C7. At epoch 0 the resolver answers from the finalized checkpoint alone, whatever the
  block table holds: the finalized root when the finalized epoch is 0, the failure
  \<open>BeforeFinalized\<close> when it is greater.
\<close>

theorem dependant_root_at_epoch_zero:
  "(CheckpointHex.epoch (getFinalizedCheckpoint fc) = 0 \<longrightarrow>
      getDependantRootAtEpoch fc b 0 = Some (Inr (rootHex (getFinalizedCheckpoint fc)))) \<and>
   (0 < CheckpointHex.epoch (getFinalizedCheckpoint fc) \<longrightarrow>
      getDependantRootAtEpoch fc b 0 =
        Some (Inl (BeforeFinalized (CheckpointHex.epoch (getFinalizedCheckpoint fc)))))"
  by (simp add: getDependantRootAtEpoch_def Let_def)

theorem dependant_root_at_epoch_zero_witness:
  "CheckpointHex.epoch (getFinalizedCheckpoint fcA) = 0 \<and>
   getDependantRootAtEpoch fcA blkC 0 = Some (Inr ''0x00'') \<and>
   0 < CheckpointHex.epoch (getFinalizedCheckpoint fcLate) \<and>
   getDependantRootAtEpoch fcLate blkC 0 = Some (Inl (BeforeFinalized 3))"
proof -
  have a: "CheckpointHex.epoch (getFinalizedCheckpoint fcA) = 0"
    and ra: "rootHex (getFinalizedCheckpoint fcA) = ''0x00''"
    and l: "0 < CheckpointHex.epoch (getFinalizedCheckpoint fcLate)"
    and el: "CheckpointHex.epoch (getFinalizedCheckpoint fcLate) = 3"
    by (simp_all add: fcA_def fcLate_def getFinalizedCheckpoint_def)
  from dependant_root_at_epoch_zero[of fcA blkC] a ra
  have "getDependantRootAtEpoch fcA blkC 0 = Some (Inr ''0x00'')" by simp
  moreover from dependant_root_at_epoch_zero[of fcLate blkC] l el
  have "getDependantRootAtEpoch fcLate blkC 0 = Some (Inl (BeforeFinalized 3))" by simp
  ultimately show ?thesis using a l by simp
qed

section \<open>The facade\<close>

lemma runContinuation_keeps:
  "jobQueue (runContinuation k outcome r) = jobQueue r"
  "head (runContinuation k outcome r) = head r"
  by (simp_all add: runContinuation_def split: Continuation.splits sum.splits)

lemma enqueue_queue:
  "jobQueue (snd (enqueue k r request)) =
     (if maxLength (jobQueue r) \<le> length (jobs (jobQueue r)) then jobQueue r
      else (jobQueue r)\<lparr>jobs := jobs (jobQueue r) @ [(request, k)]\<rparr>)"
  by (simp add: enqueue_def push_def runContinuation_keeps)


lemma enqueue_outcome:
  "enqueue ReturnToCaller r request =
     (if maxLength (jobQueue r) \<le> length (jobs (jobQueue r)) then (Rejected QueueFull, r)
      else (Pending,
            r\<lparr>jobQueue := (jobQueue r)\<lparr>jobs := jobs (jobQueue r) @ [(request, ReturnToCaller)]\<rparr>\<rparr>))"
  by (simp add: enqueue_def push_def runContinuation_def)

lemma enqueue_collaborators:
  "forkChoice (snd (enqueue k r request)) = forkChoice r"
  "stateCache (snd (enqueue k r request)) = stateCache r"
  "checkpointStateCache (snd (enqueue k r request)) = checkpointStateCache r"
  by (simp_all add: enqueue_def push_def runContinuation_def split: Continuation.splits)





lemma getAttesterShuffling_keeps:
  assumes "getAttesterShuffling r cp = Some (answer, r')"
  shows "jobQueue r' = jobQueue r" and "head r' = head r"
  using assms
  by (auto simp: getAttesterShuffling_def Let_def
      split: option.splits sum.splits prod.splits if_splits)

lemma fill_length:
  assumes "queue_bounded (jobQueue r)"
  shows "length (jobs (jobQueue (((\<lambda>r. snd (getBlockSlotState r b s c)) ^^ n) r))) =
         min REGEN_QUEUE_MAX_LEN (length (jobs (jobQueue r)) + n) \<and>
         queue_bounded (jobQueue (((\<lambda>r. snd (getBlockSlotState r b s c)) ^^ n) r))"
proof (induction n)
  case 0
  with assms show ?case by (simp add: queue_bounded_def)
next
  case (Suc n)
  then show ?case
    by (auto simp: getBlockSlotState_def enqueue_queue queue_bounded_def)
qed

lemma fill_collaborators:
  "forkChoice (((\<lambda>r. snd (getBlockSlotState r b s c)) ^^ n) r) = forkChoice r \<and>
   stateCache (((\<lambda>r. snd (getBlockSlotState r b s c)) ^^ n) r) = stateCache r \<and>
   checkpointStateCache (((\<lambda>r. snd (getBlockSlotState r b s c)) ^^ n) r) = checkpointStateCache r \<and>
   maxLength (jobQueue (((\<lambda>r. snd (getBlockSlotState r b s c)) ^^ n) r)) = maxLength (jobQueue r)"
  by (induction n) (simp_all add: getBlockSlotState_def enqueue_collaborators enqueue_queue)

lemma regenFull_length: "length (jobs (jobQueue regenFull)) = 256"
proof -
  have "queue_bounded (jobQueue regenA)" "jobs (jobQueue regenA) = []"
    by (simp_all add: regenA_def queue_bounded_def newQueuedStateRegenerator_def newJobItemQueue_def)
  from fill_length[OF this(1), where b = "''0x0a''" and s = 5 and c = "otherCaller ''api''" and n = 256]
    this(2)
  show ?thesis by (simp add: regenFull_def REGEN_QUEUE_MAX_LEN_def)
qed

lemma regenA_block6:
  "getBlockHex (forkChoice regenA) (toHexString (BeaconBlock.parentRoot block6)) = Some blkA"
  "computeEpochAtSlot (IProtoBlock.slot blkA) = computeEpochAtSlot (BeaconBlock.slot block6)"
  "stateCache regenA (IProtoBlock.stateRoot blkA) = None"
  by (simp_all add: block6_def toHexString_values regen_defs chain_defs)

lemma regenFull_block6:
  "getBlockHex (forkChoice regenFull) (toHexString (BeaconBlock.parentRoot block6)) = Some blkA"
  "stateCache regenFull (IProtoBlock.stateRoot blkA) = None"
  "maxLength (jobQueue regenFull) = 256"
  using regenA_block6 by (simp_all add: regenFull_def fill_collaborators) (simp add: regen_defs)

lemma regenPre_queue:
  "jobs (jobQueue regenPre) = []" "maxLength (jobQueue regenPre) = 256"
  by (simp_all add: regenPre_def regen_defs)

lemma regenPre_lookups:
  "getBlockHex (forkChoice regenPre) ''0x77'' = None"
  "getBlockHex (forkChoice regenPre) ''0xbb'' = Some blkP1"
  "getBlockHex (forkChoice regenPre) ''0xcc'' = Some blkP2"
  "stateCache regenPre ''0xaa'' = Some stateS"
  "getLatest (checkpointStateCache regenPre) ''0xcc'' (AtMost 1) = Some stateCp"
  "getLatest (checkpointStateCache regenPre) ''0xbb'' (AtMost 2) = None"
  by (simp_all add: regenPre_def getBlockHex_def)

lemma epochs_of_slots:
  "computeEpochAtSlot 31 = 0" "computeEpochAtSlot 32 = 1" "computeEpochAtSlot 35 = 1"
  "computeEpochAtSlot 70 = 2"
  by (simp_all add: computeEpochAtSlot_def SLOTS_PER_EPOCH_def)

text \<open>
  C5. When the state cache holds a state for the root, \<open>getState\<close> resolves to that
  state at once and leaves the job queue as it was; for an outside caller the whole
  regenerator is unchanged.
\<close>

theorem getState_cache_hit:
  assumes "stateCache r stateRootHex = Some st"
  shows "getState ReturnToCaller r stateRootHex rCaller = (Resolved st, r) \<and>
         fst (getState k r stateRootHex rCaller) = Resolved st \<and>
         jobQueue (snd (getState k r stateRootHex rCaller)) = jobQueue r"
  using assms by (cases k) (simp_all add: getState_def runContinuation_def)

theorem getState_cache_hit_witness:
  "stateCache regenPre ''0xaa'' = Some stateS \<and>
   getState ReturnToCaller regenPre ''0xaa'' (otherCaller ''api'') = (Resolved stateS, regenPre)"
proof -
  have hit: "stateCache regenPre ''0xaa'' = Some stateS" by (rule regenPre_lookups)
  from getState_cache_hit[OF hit] hit show ?thesis by blast
qed

text \<open>
  C3. \<open>getPreState\<close> rejects with \<open>BlockNotInForkChoice\<close> when the fork choice has no
  block for the parent root. With the parent found: a parent in an earlier epoch and a
  hit of \<open>checkpointStateCache.getLatest(parentRoot, epoch(block))\<close> resolve to that
  state, a parent in the same epoch and a hit of \<open>stateCache.get(parent.stateRoot)\<close>
  resolve to that state, both without touching the regenerator; every other case is
  the push of the request on the job queue: while the queue has room the request is
  appended to its jobs and the promise is pending, and when the queue is full the
  call is rejected with \<open>QueueFull\<close>.
\<close>

theorem getPreState_cases:
  "(getBlockHex (forkChoice r) (toHexString (BeaconBlock.parentRoot block)) = None \<longrightarrow>
      getPreState r block rCaller =
        (Rejected (BlockNotInForkChoice (BeaconBlock.parentRoot block)), r)) \<and>
   (\<forall>parent st.
      getBlockHex (forkChoice r) (toHexString (BeaconBlock.parentRoot block)) = Some parent \<and>
      computeEpochAtSlot (IProtoBlock.slot parent) < computeEpochAtSlot (BeaconBlock.slot block) \<and>
      getLatest (checkpointStateCache r) (toHexString (BeaconBlock.parentRoot block))
        (AtMost (computeEpochAtSlot (BeaconBlock.slot block))) = Some st \<longrightarrow>
      getPreState r block rCaller = (Resolved st, r)) \<and>
   (\<forall>parent st.
      getBlockHex (forkChoice r) (toHexString (BeaconBlock.parentRoot block)) = Some parent \<and>
      computeEpochAtSlot (IProtoBlock.slot parent) = computeEpochAtSlot (BeaconBlock.slot block) \<and>
      stateCache r (IProtoBlock.stateRoot parent) = Some st \<longrightarrow>
      getPreState r block rCaller = (Resolved st, r)) \<and>
   (\<forall>parent.
      getBlockHex (forkChoice r) (toHexString (BeaconBlock.parentRoot block)) = Some parent \<and>
      \<not> (computeEpochAtSlot (IProtoBlock.slot parent) < computeEpochAtSlot (BeaconBlock.slot block) \<and>
         getLatest (checkpointStateCache r) (toHexString (BeaconBlock.parentRoot block))
           (AtMost (computeEpochAtSlot (BeaconBlock.slot block))) \<noteq> None) \<and>
      \<not> (computeEpochAtSlot (IProtoBlock.slot parent) = computeEpochAtSlot (BeaconBlock.slot block) \<and>
         stateCache r (IProtoBlock.stateRoot parent) \<noteq> None) \<longrightarrow>
      getPreState r block rCaller = enqueue ReturnToCaller r (GetPreState block rCaller) \<and>
      (length (jobs (jobQueue r)) < maxLength (jobQueue r) \<longrightarrow>
         getPreState r block rCaller =
           (Pending,
            r\<lparr>jobQueue := (jobQueue r)
                \<lparr>jobs := jobs (jobQueue r) @ [(GetPreState block rCaller, ReturnToCaller)]\<rparr>\<rparr>)) \<and>
      (maxLength (jobQueue r) \<le> length (jobs (jobQueue r)) \<longrightarrow>
         getPreState r block rCaller = (Rejected QueueFull, r)))"
  by (auto simp: getPreState_def Let_def enqueue_outcome)

theorem getPreState_cases_witness:
  "getPreState regenPre blockOrphan (otherCaller ''api'') =
     (Rejected (BlockNotInForkChoice [0x77]), regenPre) \<and>
   getPreState regenPre block32 (otherCaller ''api'') = (Resolved stateCp, regenPre) \<and>
   getPreState regenPre block35 (otherCaller ''api'') = (Resolved stateS, regenPre) \<and>
   getPreState regenPre block70 (otherCaller ''api'') =
     (Pending,
      regenPre\<lparr>jobQueue :=
        \<lparr>maxLength = 256, jobs = [(GetPreState block70 (otherCaller ''api''), ReturnToCaller)]\<rparr>\<rparr>) \<and>
   length (jobs (jobQueue regenFull)) = 256 \<and>
   getPreState regenFull block6 (otherCaller ''api'') = (Rejected QueueFull, regenFull)"
proof -
  have "getPreState regenPre blockOrphan (otherCaller ''api'') =
          (Rejected (BlockNotInForkChoice [0x77]), regenPre)"
    using getPreState_cases[of regenPre blockOrphan "otherCaller ''api''"] regenPre_lookups
    by (simp add: blockOrphan_def toHexString_values)
  moreover have "getPreState regenPre block32 (otherCaller ''api'') = (Resolved stateCp, regenPre)"
    using getPreState_cases[of regenPre block32 "otherCaller ''api''"] regenPre_lookups
    by (simp add: block32_def blkP2_def toHexString_values epochs_of_slots)
  moreover have "getPreState regenPre block35 (otherCaller ''api'') = (Resolved stateS, regenPre)"
    using getPreState_cases[of regenPre block35 "otherCaller ''api''"] regenPre_lookups
    by (simp add: block35_def blkP1_def toHexString_values epochs_of_slots)
  moreover have "getPreState regenPre block70 (otherCaller ''api'') =
     (Pending,
      regenPre\<lparr>jobQueue :=
        \<lparr>maxLength = 256, jobs = [(GetPreState block70 (otherCaller ''api''), ReturnToCaller)]\<rparr>\<rparr>)"
  proof -
    have "getPreState regenPre block70 (otherCaller ''api'') =
           (Pending,
            regenPre\<lparr>jobQueue := (jobQueue regenPre)
              \<lparr>jobs := jobs (jobQueue regenPre) @
                 [(GetPreState block70 (otherCaller ''api''), ReturnToCaller)]\<rparr>\<rparr>)"
      using getPreState_cases[of regenPre block70 "otherCaller ''api''"] regenPre_lookups
        regenPre_queue
      by (simp add: block70_def blkP1_def toHexString_values epochs_of_slots enqueue_outcome)
    then show ?thesis by (simp add: regenPre_def regen_defs)
  qed
  moreover have "getPreState regenFull block6 (otherCaller ''api'') = (Rejected QueueFull, regenFull)"
    using getPreState_cases[of regenFull block6 "otherCaller ''api''"] regenFull_block6
      regenA_block6(2) regenFull_length
    by (simp add: enqueue_outcome)
  ultimately show ?thesis using regenFull_length by blast
qed

section \<open>The head tracker\<close>









lemma setHead_of_C: "setHead regenA1 blkC (Some stateC5) = Some (Inr regenA2)"
  by (simp add: setHead_def bindDependantRoot_def getDependantRootAtEpoch_def chain_defs regen_defs
      regenA1_def regenA2_def headA_def headC_def stateC5_def toHexString_values Let_def
      dependantRootWalk_Some dependantRootWalk_None)

lemma regenA_queue: "jobs (jobQueue regenA) = []" "maxLength (jobQueue regenA) = 256"
  by (simp_all add: regen_defs)



text \<open>
  C6. When the candidate state has the slot of the head block and its hash tree root
  is the block's state root, then once \<open>setHead\<close> has returned the candidate is the head
  state, \<open>getHeadState\<close> gives it, and nothing was pushed on the job queue.
\<close>

theorem setHead_installs_matching_state:
  assumes "IProtoBlock.slot b = CachedBeaconState.slot s"
      and "IProtoBlock.stateRoot b = toHexString (hashTreeRoot s)"
      and "setHead r b (Some s) = Some (Inr r')"
  shows "getHeadState r' = Some s \<and> headState r' = Some s \<and> jobQueue r' = jobQueue r"
  using assms
  by (auto simp: setHead_def bindDependantRoot_def Let_def getHeadState_def
      split: option.splits sum.splits)

theorem setHead_installs_matching_state_witness:
  "IProtoBlock.slot blkC = CachedBeaconState.slot stateC5 \<and>
   IProtoBlock.stateRoot blkC = toHexString (hashTreeRoot stateC5) \<and>
   setHead regenA1 blkC (Some stateC5) = Some (Inr regenA2) \<and>
   getHeadState regenA2 = Some stateC5 \<and> jobQueue regenA2 = jobQueue regenA1"
proof -
  have sl: "IProtoBlock.slot blkC = CachedBeaconState.slot stateC5"
    and rt: "IProtoBlock.stateRoot blkC = toHexString (hashTreeRoot stateC5)"
    by (simp_all add: blkC_def stateC5_def toHexString_values)
  from setHead_installs_matching_state[OF sl rt setHead_of_C] sl rt setHead_of_C
  show ?thesis by blast
qed




section \<open>Attester shuffling\<close>

text \<open>
  No call assigns the three tables or \<open>store\<close>: whatever the regenerator does, they
  keep the value they had, which after the constructor is \<open>undefined\<close>.
\<close>

lemma constructed_unassigned:
  "unassigned_members (newQueuedStateRegenerator modules head0) = (None, None, None, None)"
  by (simp add: unassigned_members_def newQueuedStateRegenerator_def)

lemma runContinuation_unassigned:
  "unassigned_members (runContinuation k outcome r) = unassigned_members r"
  by (simp add: unassigned_members_def runContinuation_def split: Continuation.splits sum.splits)

lemma enqueue_unassigned: "unassigned_members (snd (enqueue k r request)) = unassigned_members r"
  using runContinuation_unassigned[of k _ r]
  by (auto simp: enqueue_def push_def unassigned_members_def split: sum.splits)

lemma calls_keep_unassigned:
  "unassigned_members (snd (getPreState r block rCaller)) = unassigned_members r"
  "unassigned_members (snd (getCheckpointState r cp rCaller)) = unassigned_members r"
  "unassigned_members (snd (getBlockSlotState r blockRootHex sl rCaller)) = unassigned_members r"
  "unassigned_members (snd (getState k r stateRootHex rCaller)) = unassigned_members r"
  by (auto simp: getPreState_def getCheckpointState_def getBlockSlotState_def getState_def Let_def
        enqueue_unassigned runContinuation_unassigned split: option.splits)

lemma jobDone_keeps_unassigned: "unassigned_members (jobDone r outcome) = unassigned_members r"
  by (simp add: jobDone_def unassigned_members_def runContinuation_def
      split: list.splits prod.splits Continuation.splits sum.splits)

lemma setHead_keeps_unassigned:
  "setHead r headBlock potentialHeadState = Some (Inr r') \<Longrightarrow>
   unassigned_members r' = unassigned_members r"
  by (auto simp: setHead_def bindDependantRoot_def Let_def unassigned_members_def getState_def
        enqueue_def push_def runContinuation_def
      split: option.splits sum.splits if_splits)

lemma getAttesterShuffling_keeps_unassigned:
  "dependantRootCacheNext r = None \<Longrightarrow>
   getAttesterShuffling r targetCheckpoint = Some (answer, r') \<Longrightarrow>
   unassigned_members r' = unassigned_members r"
  by (auto simp: getAttesterShuffling_def Let_def
      split: option.splits sum.splits prod.splits if_splits)

text \<open>
  The head checks. At an epoch up to 0 \<open>setHead\<close> computes \<open>dependantRootNext\<close> and
  \<open>dependantRootCurr\<close> by the same call, so they agree; on such a head the chain of the
  three checks answers as the claim lists them, the first that matches.
\<close>

lemma dependant_root_up_to_epoch_zero:
  "ep \<le> 0 \<Longrightarrow> getDependantRootAtEpoch fc b ep = getDependantRootAtEpoch fc b 0"
  by (simp add: getDependantRootAtEpoch_def)

lemma setHead_head:
  assumes "setHead r headBlock potentialHeadState = Some (Inr r')"
  shows "\<exists>rootNext rootCurr.
           getDependantRootAtEpoch (forkChoice r) headBlock
             (computeEpochAtSlot (IProtoBlock.slot headBlock)) = Some (Inr rootNext) \<and>
           getDependantRootAtEpoch (forkChoice r) headBlock
             (max (computeEpochAtSlot (IProtoBlock.slot headBlock) - 1) 0) = Some (Inr rootCurr) \<and>
           HeadSummary.epoch (head r') = computeEpochAtSlot (IProtoBlock.slot headBlock) \<and>
           dependantRootNext (head r') = rootNext \<and> dependantRootCurr (head r') = rootCurr"
  using assms
  by (auto simp: setHead_def bindDependantRoot_def Let_def getState_def enqueue_def push_def
        runContinuation_def
      split: option.splits sum.splits if_splits)

lemma setHead_roots_at_epoch_zero:
  assumes "setHead r headBlock potentialHeadState = Some (Inr r')"
      and "HeadSummary.epoch (head r') \<le> 0"
  shows "dependantRootCurr (head r') = dependantRootNext (head r')"
proof -
  define e where "e = computeEpochAtSlot (IProtoBlock.slot headBlock)"
  from setHead_head[OF assms(1)] obtain rootNext rootCurr where
    n: "getDependantRootAtEpoch (forkChoice r) headBlock e = Some (Inr rootNext)" and
    c: "getDependantRootAtEpoch (forkChoice r) headBlock (max (e - 1) 0) = Some (Inr rootCurr)" and
    h: "HeadSummary.epoch (head r') = e" "dependantRootNext (head r') = rootNext"
       "dependantRootCurr (head r') = rootCurr"
    unfolding e_def by blast
  from assms(2) h(1) have le: "e \<le> 0" by simp
  then have "max (e - 1) 0 = 0" by simp
  with c have "getDependantRootAtEpoch (forkChoice r) headBlock 0 = Some (Inr rootCurr)" by simp
  with n dependant_root_up_to_epoch_zero[OF le, of "forkChoice r" headBlock]
  have "rootCurr = rootNext" by simp
  with h show ?thesis by simp
qed

lemma head_answers_as_claimed:
  assumes "getBlock (forkChoice r) (root cp) = Some targetBlock"
      and "getDependantRootAtEpoch (forkChoice r) targetBlock (max (Checkpoint.epoch cp - 1) 0) =
             Some (Inr D)"
      and "headState r = Some hs"
      and "0 \<le> Checkpoint.epoch cp"
      and "HeadSummary.epoch (head r) \<le> 0 \<longrightarrow> dependantRootCurr (head r) = dependantRootNext (head r)"
  shows "(HeadSummary.epoch (head r) = Checkpoint.epoch cp \<and> dependantRootCurr (head r) = D \<longrightarrow>
            getAttesterShuffling r cp = Some (Resolved (currentShuffling hs), r)) \<and>
         (\<not> (HeadSummary.epoch (head r) = Checkpoint.epoch cp \<and> dependantRootCurr (head r) = D) \<and>
          HeadSummary.epoch (head r) = max (Checkpoint.epoch cp - 1) 0 \<and>
          dependantRootNext (head r) = D \<longrightarrow>
            getAttesterShuffling r cp = Some (Resolved (nextShuffling hs), r)) \<and>
         (\<not> (HeadSummary.epoch (head r) = Checkpoint.epoch cp \<and> dependantRootCurr (head r) = D) \<and>
          \<not> (HeadSummary.epoch (head r) = max (Checkpoint.epoch cp - 1) 0 \<and>
             dependantRootNext (head r) = D) \<and>
          HeadSummary.epoch (head r) = Checkpoint.epoch cp + 1 \<and>
          dependantRootPrev (head r) = D \<longrightarrow>
            getAttesterShuffling r cp = Some (Resolved (previousShuffling hs), r))"
  using assms by (auto simp: getAttesterShuffling_def Let_def max_def split: if_splits)

text \<open>
  Past the head, the first probe throws: with the table \<open>undefined\<close>, every call that
  finds its target block and dependant root and is not answered from the head state
  rejects with \<open>TypeError\<close>.
\<close>

lemma throws_past_the_head:
  assumes "dependantRootCacheNext r = None"
      and "getBlock (forkChoice r) (root cp) = Some targetBlock"
      and "getDependantRootAtEpoch (forkChoice r) targetBlock (max (Checkpoint.epoch cp - 1) 0) =
             Some (Inr D)"
      and "headState r = None"
  shows "getAttesterShuffling r cp = Some (Rejected TypeError, r)"
  using assms by (simp add: getAttesterShuffling_def Let_def)

lemma regenA_cp0:
  "headState regenA = None"
  "dependantRootCacheNext regenA = None"
  "getBlock (forkChoice regenA) (root cp0) = Some blkA"
  "getDependantRootAtEpoch (forkChoice regenA) blkA (max (Checkpoint.epoch cp0 - 1) 0) =
     Some (Inr ''0x00'')"
  by (simp_all add: cp0_def getBlock_def toHexString_values regen_defs
        getDependantRootAtEpoch_def chain_defs)

text \<open>
  C4 fails on the code. On the regenerator as its constructor builds it, with the head
  state not yet available, a call for the checkpoint (epoch 0, block \<open>A\<close>) finds the
  target block and the dependant root, skips the head, and is rejected with
  \<open>TypeError\<close> at the first probe, where the claim has it probe the buckets and fall
  back to \<open>readCheckpointState\<close>.
\<close>

theorem attester_shuffling_probe_throws:
  "headState regenA = None \<and>
   getBlock (forkChoice regenA) (root cp0) = Some blkA \<and>
   getDependantRootAtEpoch (forkChoice regenA) blkA (max (Checkpoint.epoch cp0 - 1) 0) =
     Some (Inr ''0x00'') \<and>
   dependantRootCacheNext regenA = None \<and>
   getAttesterShuffling regenA cp0 = Some (Rejected TypeError, regenA)"
  using regenA_cp0 throws_past_the_head[OF regenA_cp0(2) regenA_cp0(3) regenA_cp0(4) regenA_cp0(1)]
  by simp

section \<open>The bound of the job queue\<close>

lemma bounded_enqueue:
  "queue_bounded (jobQueue r) \<Longrightarrow> queue_bounded (jobQueue (snd (enqueue k r request)))"
  by (auto simp: queue_bounded_def enqueue_queue)

lemma bounded_getState:
  "queue_bounded (jobQueue r) \<Longrightarrow> queue_bounded (jobQueue (snd (getState k r stateRootHex rCaller)))"
  by (auto simp: getState_def runContinuation_keeps bounded_enqueue split: option.splits)

lemma bounded_getPreState:
  "queue_bounded (jobQueue r) \<Longrightarrow> queue_bounded (jobQueue (snd (getPreState r block rCaller)))"
  by (auto simp: getPreState_def Let_def bounded_enqueue split: option.splits)

lemma bounded_getCheckpointState:
  "queue_bounded (jobQueue r) \<Longrightarrow> queue_bounded (jobQueue (snd (getCheckpointState r cp rCaller)))"
  by (auto simp: getCheckpointState_def bounded_enqueue split: option.splits)

lemma bounded_setHead:
  assumes "queue_bounded (jobQueue r)" and "setHead r b cand = Some (Inr r')"
  shows "queue_bounded (jobQueue r')"
proof -
  have "queue_bounded
          (jobQueue (snd (getState InstallHeadState (r\<lparr>head := h, headState := None\<rparr>) sr c)))"
    for h sr c
    using assms(1) by (intro bounded_getState) simp
  with assms show ?thesis
    by (auto simp: setHead_def bindDependantRoot_def Let_def split: option.splits sum.splits if_splits)
qed

lemma bounded_jobDone:
  "queue_bounded (jobQueue r) \<Longrightarrow> queue_bounded (jobQueue (jobDone r outcome))"
  by (auto simp: jobDone_def runContinuation_keeps queue_bounded_def split: list.splits)

lemma foldl_runContinuation_queue:
  "jobQueue (foldl (\<lambda>r' job. runContinuation (snd job) outcome r') r js) = jobQueue r"
  by (induction js arbitrary: r) (simp_all add: runContinuation_keeps)

lemma bounded_abortJobs:
  "queue_bounded (jobQueue r) \<Longrightarrow> queue_bounded (jobQueue (abortJobs r))"
  by (simp add: abortJobs_def foldl_runContinuation_queue queue_bounded_def)

lemma reachable_bounded: "reachable r \<Longrightarrow> queue_bounded (jobQueue r)"
proof (induction rule: reachable.induct)
  case (constructed modules head0)
  show ?case
    by (simp add: queue_bounded_def newQueuedStateRegenerator_def newJobItemQueue_def)
next
  case (called_setHead r headBlock potentialHeadState r')
  then show ?case by (blast intro: bounded_setHead)
next
  case (called_getAttesterShuffling r targetCheckpoint answer r')
  then show ?case by (simp add: getAttesterShuffling_keeps)
qed (simp_all add: bounded_getPreState bounded_getCheckpointState bounded_getState
       bounded_jobDone bounded_abortJobs bounded_enqueue getBlockSlotState_def)

lemma reachable_funpow:
  "reachable r \<Longrightarrow> reachable (((\<lambda>r. snd (getBlockSlotState r b s c)) ^^ n) r)"
  by (induction n) (simp_all add: reachable.called_getBlockSlotState)

lemma regenFull_reachable: "reachable regenFull"
  unfolding regenFull_def regenA_def by (intro reachable_funpow reachable.constructed)

text \<open>
  C8. In every state the regenerator can reach, the queue holds at most 256 jobs, in
  flight and pending together; and when it holds 256, a push fails with \<open>QueueFull\<close>
  and a facade call that has to enqueue is rejected with \<open>QueueFull\<close> at once, leaving
  the regenerator as it was.
\<close>

theorem queue_never_exceeds_max:
  assumes "reachable r"
  shows "length (jobs (jobQueue r)) \<le> 256 \<and>
         (length (jobs (jobQueue r)) = 256 \<longrightarrow>
            (\<forall>job. push (jobQueue r) job = Inl QueueFull) \<and>
            (\<forall>k request. enqueue k r request = (Rejected QueueFull, r)))"
  using reachable_bounded[OF assms]
  by (auto simp: queue_bounded_def REGEN_QUEUE_MAX_LEN_def push_def enqueue_def runContinuation_def
      split: Continuation.splits)

theorem queue_never_exceeds_max_witness:
  "reachable regenFull \<and> length (jobs (jobQueue regenFull)) = 256 \<and>
   getBlockSlotState regenFull ''0x0c'' 45 (otherCaller ''api'') = (Rejected QueueFull, regenFull)"
  using queue_never_exceeds_max[OF regenFull_reachable] regenFull_reachable regenFull_length
  by (simp add: getBlockSlotState_def)

section \<open>Expected withdrawals\<close>

lemma withdrawalsLoop_indices:
  assumes "withdrawalsLoop P state currentEpoch i withdrawalIndex vi withdrawals = Inr out"
      and "length withdrawals < MAX_WITHDRAWALS_PER_PAYLOAD P"
      and "map index withdrawals = [n0 ..< n0 + length withdrawals]"
      and "withdrawalIndex = n0 + length withdrawals"
  shows "length out \<le> MAX_WITHDRAWALS_PER_PAYLOAD P \<and> map index out = [n0 ..< n0 + length out]"
  using assms
proof (induction "length (validators state) - i" arbitrary: i withdrawalIndex vi withdrawals)
  case 0
  then show ?case
    by (simp add: withdrawalsLoop.simps[of P state currentEpoch i])
next
  case (Suc n)
  from Suc.hyps(2) have inside: "i < length (validators state)" by simp
  note run = Suc.prems(1)
    [unfolded withdrawalsLoop.simps[of P state currentEpoch i withdrawalIndex vi withdrawals]]
  from run inside have vi: "vi < length (validators state)" "vi < length (balances state)"
    by (auto split: if_splits)
  define validator where "validator = validators state ! vi"
  define balance where "balance = balances state ! vi"
  define hit where
    "hit = (((0 < balance \<and> withdrawableEpoch validator \<le> currentEpoch) \<or>
             (effectiveBalance validator = MAX_EFFECTIVE_BALANCE P \<and>
              MAX_EFFECTIVE_BALANCE P < balance)) \<and>
            at (withdrawalCredentials validator) 0 = at (ETH1_ADDRESS_WITHDRAWAL_PREFIX P) 0)"
  define w where
    "w = \<lparr>index = withdrawalIndex,
          Withdrawal.validatorIndex = vi,
          address = sliceFrom (withdrawalCredentials validator) 12,
          amount = (if withdrawableEpoch validator \<le> currentEpoch then balance
                    else balance - MAX_EFFECTIVE_BALANCE P)\<rparr>"
  define withdrawals' where "withdrawals' = (if hit then withdrawals @ [w] else withdrawals)"
  define withdrawalIndex' where
    "withdrawalIndex' = (if hit then withdrawalIndex + 1 else withdrawalIndex)"
  have idx: "map index withdrawals' = [n0 ..< n0 + length withdrawals']"
    using Suc.prems(3,4) by (simp add: withdrawals'_def w_def)
  have wi: "withdrawalIndex' = n0 + length withdrawals'"
    using Suc.prems(4) by (simp add: withdrawals'_def withdrawalIndex'_def)
  have len: "length withdrawals' \<le> MAX_WITHDRAWALS_PER_PAYLOAD P"
    using Suc.prems(2) by (simp add: withdrawals'_def)
  have "withdrawalsLoop P state currentEpoch i withdrawalIndex vi withdrawals =
    (if MAX_WITHDRAWALS_PER_PAYLOAD P \<le> length withdrawals' then Inr withdrawals'
      else withdrawalsLoop P state currentEpoch (i + 1) withdrawalIndex'
             ((vi + 1) mod length (validators state)) withdrawals')"
    using inside vi
    unfolding withdrawals'_def withdrawalIndex'_def w_def hit_def validator_def balance_def
    by (subst withdrawalsLoop.simps) (simp add: Let_def split del: if_split)
  with Suc.prems(1) have run':
    "(if MAX_WITHDRAWALS_PER_PAYLOAD P \<le> length withdrawals' then Inr withdrawals'
      else withdrawalsLoop P state currentEpoch (i + 1) withdrawalIndex'
             ((vi + 1) mod length (validators state)) withdrawals') = Inr out"
    by simp
  show ?case
  proof (cases "MAX_WITHDRAWALS_PER_PAYLOAD P \<le> length withdrawals'")
    case True
    with run' have "out = withdrawals'" by simp
    with idx len show ?thesis by simp
  next
    case False
    with run' have again:
      "withdrawalsLoop P state currentEpoch (i + 1) withdrawalIndex'
         ((vi + 1) mod length (validators state)) withdrawals' = Inr out"
      by simp
    have n: "n = length (validators state) - (i + 1)" using Suc.hyps(2) by simp
    from False have lt: "length withdrawals' < MAX_WITHDRAWALS_PER_PAYLOAD P" by simp
    show ?thesis by (rule Suc.hyps(1)[OF n again lt idx wi])
  qed
qed

lemma withdrawalsLoop_returns:
  assumes "vi < length (validators state)"
      and "length (balances state) = length (validators state)"
  shows "\<exists>out. withdrawalsLoop P state currentEpoch i withdrawalIndex vi withdrawals = Inr out"
  using assms(1)
proof (induction "length (validators state) - i" arbitrary: i withdrawalIndex vi withdrawals)
  case 0
  then show ?case by (simp add: withdrawalsLoop.simps[of P state currentEpoch i])
next
  case (Suc n)
  have n: "n = length (validators state) - (i + 1)" using Suc.hyps(2) by simp
  from Suc.prems have "0 < length (validators state)" by linarith
  then have nxt: "(vi + 1) mod length (validators state) < length (validators state)"
    by (rule mod_less_divisor)
  from Suc.hyps(2) have "i < length (validators state)" by simp
  with Suc.prems assms(2) Suc.hyps(1)[OF n nxt] show ?case
    by (subst withdrawalsLoop.simps) (simp add: Let_def)
qed

lemma stateW_wellformed:
  "0 < MAX_WITHDRAWALS_PER_PAYLOAD paramsW"
  "nextWithdrawalValidatorIndex stateW < length (validators stateW)"
  "length (balances stateW) = length (validators stateW)"
  "nextWithdrawalIndex stateW = 7"
  by (simp_all add: paramsW_def stateW_def)

lemma stateW_withdrawals: "getExpectedWithdrawals paramsW stateW = Inr withdrawalsW"
  by code_simp

text \<open>
  C9. With a positive \<open>MAX_WITHDRAWALS_PER_PAYLOAD\<close>, a list returned by
  \<open>getExpectedWithdrawals\<close> has at most that many withdrawals and their indices are
  \<open>nextWithdrawalIndex\<close>, \<open>nextWithdrawalIndex + 1\<close>, and so on. The function returns
  a list for every state whose cursor \<open>nextWithdrawalValidatorIndex\<close> is inside the
  validator list and whose balances are as many as its validators.
\<close>

theorem expected_withdrawals_bounded_and_consecutive:
  assumes "0 < MAX_WITHDRAWALS_PER_PAYLOAD P"
  shows "(\<forall>ws. getExpectedWithdrawals P state = Inr ws \<longrightarrow>
            length ws \<le> MAX_WITHDRAWALS_PER_PAYLOAD P \<and>
            map index ws = [nextWithdrawalIndex state ..< nextWithdrawalIndex state + length ws]) \<and>
         (nextWithdrawalValidatorIndex state < length (validators state) \<and>
          length (balances state) = length (validators state) \<longrightarrow>
            (\<exists>ws. getExpectedWithdrawals P state = Inr ws))"
  using assms
    withdrawalsLoop_indices[of P state _ 0 "nextWithdrawalIndex state" _ "[]" _ "nextWithdrawalIndex state"]
    withdrawalsLoop_returns[of "nextWithdrawalValidatorIndex state" state P]
  by (auto simp: getExpectedWithdrawals_def)

theorem expected_withdrawals_bounded_and_consecutive_witness:
  "0 < MAX_WITHDRAWALS_PER_PAYLOAD paramsW \<and>
   nextWithdrawalValidatorIndex stateW < length (validators stateW) \<and>
   length (balances stateW) = length (validators stateW) \<and>
   getExpectedWithdrawals paramsW stateW = Inr withdrawalsW \<and>
   length withdrawalsW \<le> MAX_WITHDRAWALS_PER_PAYLOAD paramsW \<and>
   map index withdrawalsW =
     [nextWithdrawalIndex stateW ..< nextWithdrawalIndex stateW + length withdrawalsW]"
  using expected_withdrawals_bounded_and_consecutive[OF stateW_wellformed(1), of stateW]
    stateW_wellformed stateW_withdrawals
  by blast

section \<open>BLS to execution change\<close>

lemma slice_differs_iff:
  assumes "length xs = 32" "length ys = 32"
  shows "slice xs 1 32 \<noteq> slice ys 1 32 \<longleftrightarrow> (\<exists>i. 1 \<le> i \<and> i \<le> 31 \<and> xs ! i \<noteq> ys ! i)"
proof -
  have "slice xs 1 32 = slice ys 1 32 \<longleftrightarrow> (\<forall>i. 1 \<le> i \<and> i \<le> 31 \<longrightarrow> xs ! i = ys ! i)"
  proof
    assume eq: "slice xs 1 32 = slice ys 1 32"
    show "\<forall>i. 1 \<le> i \<and> i \<le> 31 \<longrightarrow> xs ! i = ys ! i"
    proof (intro allI impI)
      fix i :: nat assume i: "1 \<le> i \<and> i \<le> 31"
      from eq have "slice xs 1 32 ! (i - 1) = slice ys 1 32 ! (i - 1)" by simp
      with i assms show "xs ! i = ys ! i" by (simp add: slice_def)
    qed
  next
    assume all: "\<forall>i. 1 \<le> i \<and> i \<le> 31 \<longrightarrow> xs ! i = ys ! i"
    show "slice xs 1 32 = slice ys 1 32"
      using assms all by (intro nth_equalityI) (auto simp: slice_def)
  qed
  then show ?thesis by blast
qed

lemma rewrite_credentials:
  assumes "length c = 32" "length prefix = 1" "length addr = 20"
  shows "typedArraySet c prefix 0 = Inr (prefix @ drop 1 c)"
    and "typedArraySet (prefix @ drop 1 c) (replicate 11 0) 1 =
           Inr (prefix @ replicate 11 0 @ drop 12 c)"
    and "typedArraySet (prefix @ replicate 11 0 @ drop 12 c) addr 12 =
           Inr (prefix @ replicate 11 0 @ addr)"
  using assms by (simp_all add: typedArraySet_def)

lemma stateBls_wellformed:
  "\<forall>v \<in> set (validators stateBls). length (withdrawalCredentials v) = 32"
  "length (digest5 (fromBlsPubkey (message changeOk))) = 32"
  "length (toExecutionAddress (message changeOk)) = 20"
  "length (digest5 (fromBlsPubkey (message changeBadIndex))) = 32"
  "length (toExecutionAddress (message changeBadIndex)) = 20"
  "length (ETH1_ADDRESS_WITHDRAWAL_PREFIX paramsW) = WITHDRAWAL_PREFIX_BYTES"
  by (simp_all add: stateBls_def digest5_def changeOk_def changeBadIndex_def paramsW_def
        WITHDRAWAL_PREFIX_BYTES_def)

lemma changeOk_accepted:
  "fst (processBlsToExecutionChange paramsW digest5 stateBls changeOk) = None"
  by code_simp

lemma changeBadIndex_out_of_range:
  "length (validators stateBls) \<le> BLSToExecutionChange.validatorIndex (message changeBadIndex)"
  by (simp add: stateBls_def changeBadIndex_def)

text \<open>
  C10. For a state whose withdrawal credentials are 32 bytes, a 20-byte execution
  address, a 32-byte digest and a one-byte \<open>ETH1_ADDRESS_WITHDRAWAL_PREFIX\<close>:
  \<open>processBlsToExecutionChange\<close> throws exactly when the validator index is not below
  the number of validators, or the first byte of the credentials is not
  \<open>BLS_WITHDRAWAL_PREFIX\<close>, or some byte 1..31 of the credentials differs from the same
  byte of the digest of \<open>fromBlsPubkey\<close>; when it throws the state is unchanged; when it
  returns, the validator's credentials are the prefix, eleven zero bytes and the
  execution address, and nothing else in the state has changed.
\<close>

theorem bls_change_throws_exactly_when_invalid:
  fixes P digest state signedChange
  defines "change \<equiv> message signedChange"
  defines "i \<equiv> BLSToExecutionChange.validatorIndex change"
  defines "credentials \<equiv> withdrawalCredentials (validators state ! i)"
  defines "outcome \<equiv> processBlsToExecutionChange P digest state signedChange"
  assumes "\<forall>v \<in> set (validators state). length (withdrawalCredentials v) = 32"
      and "length (digest (fromBlsPubkey change)) = 32"
      and "length (toExecutionAddress change) = 20"
      and "length (ETH1_ADDRESS_WITHDRAWAL_PREFIX P) = WITHDRAWAL_PREFIX_BYTES"
  shows "(fst outcome \<noteq> None \<longleftrightarrow>
            length (validators state) \<le> i \<or>
            take 1 credentials \<noteq> BLS_WITHDRAWAL_PREFIX P \<or>
            (\<exists>j. 1 \<le> j \<and> j \<le> 31 \<and> credentials ! j \<noteq> digest (fromBlsPubkey change) ! j)) \<and>
         (fst outcome \<noteq> None \<longrightarrow> snd outcome = state) \<and>
         (fst outcome = None \<longrightarrow>
            snd outcome = state\<lparr>validators := (validators state)
              [i := (validators state ! i)\<lparr>withdrawalCredentials :=
                 ETH1_ADDRESS_WITHDRAWAL_PREFIX P @ replicate 11 0 @ toExecutionAddress change\<rparr>]\<rparr>)"
proof (cases "length (validators state) \<le> i")
  case True
  then show ?thesis
    by (simp add: outcome_def processBlsToExecutionChange_def Let_def change_def i_def)
next
  case False
  then have "validators state ! i \<in> set (validators state)" by simp
  with assms(5) have len: "length credentials = 32" by (simp add: credentials_def)
  note sl = slice_differs_iff[OF len assms(6)]
  note rw = rewrite_credentials[OF len assms(8)[unfolded WITHDRAWAL_PREFIX_BYTES_def] assms(7)]
  show ?thesis
    using False sl rw
    by (simp add: outcome_def processBlsToExecutionChange_def Let_def change_def[symmetric]
          i_def[symmetric] credentials_def[symmetric] WITHDRAWAL_PREFIX_BYTES_def slice_def
          withCredentials_def)
qed

theorem bls_change_throws_exactly_when_invalid_witness:
  "map (\<lambda>v. length (withdrawalCredentials v)) (validators stateBls) = [32] \<and>
   length (digest5 (fromBlsPubkey (message changeOk))) = 32 \<and>
   length (toExecutionAddress (message changeOk)) = 20 \<and>
   length (ETH1_ADDRESS_WITHDRAWAL_PREFIX paramsW) = WITHDRAWAL_PREFIX_BYTES \<and>
   fst (processBlsToExecutionChange paramsW digest5 stateBls changeOk) = None \<and>
   map withdrawalCredentials
     (validators (snd (processBlsToExecutionChange paramsW digest5 stateBls changeOk))) =
     [[1] @ replicate 11 0 @ replicate 20 0xee] \<and>
   fst (processBlsToExecutionChange paramsW digest5 stateBls changeBadIndex) \<noteq> None \<and>
   snd (processBlsToExecutionChange paramsW digest5 stateBls changeBadIndex) = stateBls"
proof -
  from bls_change_throws_exactly_when_invalid
         [where P = paramsW and digest = digest5 and state = stateBls and signedChange = changeOk,
          OF stateBls_wellformed(1) stateBls_wellformed(2) stateBls_wellformed(3)
             stateBls_wellformed(6)]
       changeOk_accepted
  have "snd (processBlsToExecutionChange paramsW digest5 stateBls changeOk) =
          stateBls\<lparr>validators := (validators stateBls)
            [BLSToExecutionChange.validatorIndex (message changeOk) :=
               (validators stateBls ! BLSToExecutionChange.validatorIndex (message changeOk))
                 \<lparr>withdrawalCredentials :=
                    ETH1_ADDRESS_WITHDRAWAL_PREFIX paramsW @ replicate 11 0 @
                    toExecutionAddress (message changeOk)\<rparr>]\<rparr>"
    by blast
  then have ok:
    "map withdrawalCredentials
       (validators (snd (processBlsToExecutionChange paramsW digest5 stateBls changeOk))) =
     [[1] @ replicate 11 0 @ replicate 20 0xee]"
    by (simp add: stateBls_def changeOk_def paramsW_def)
  from bls_change_throws_exactly_when_invalid
         [where P = paramsW and digest = digest5 and state = stateBls
            and signedChange = changeBadIndex,
          OF stateBls_wellformed(1) stateBls_wellformed(4) stateBls_wellformed(5)
             stateBls_wellformed(6)]
       changeBadIndex_out_of_range
  have bad: "fst (processBlsToExecutionChange paramsW digest5 stateBls changeBadIndex) \<noteq> None \<and>
             snd (processBlsToExecutionChange paramsW digest5 stateBls changeBadIndex) = stateBls"
    by blast
  have "map (\<lambda>v. length (withdrawalCredentials v)) (validators stateBls) = [32]"
    by (simp add: stateBls_def)
  with ok bad changeOk_accepted stateBls_wellformed show ?thesis by blast
qed

end
